theory Spec2Isabelle
  imports Main "HOL-Library.AList" "HOL-Library.Char_ord" "HOL-Library.List_Lexorder"
begin

section \<open>JavaScript values\<close>

text \<open>
  The values that travel through the Remote and the Agent. \<open>JNum\<close> stands for the
  integral numbers, which print in decimal. \<open>JFun k src\<close> is a function object (plain or
  async) with identity \<open>k\<close> and source text \<open>src\<close>; user functions are opaque, a call
  to one is recorded and returns. \<open>JArr xs ps\<close> is an array with elements \<open>xs\<close> and
  named own properties \<open>ps\<close> (\<open>JSON.parse\<close> yields none); \<open>JObj ps\<close> is a plain
  object with own properties \<open>ps\<close> in insertion order and the default prototype.
\<close>

datatype jsval =
    JUndefined
  | JNull
  | JBool bool
  | JNum int
  | JStr string
  | JFun nat string
  | JArr "jsval list" "(string \<times> jsval) list"
  | JObj "(string \<times> jsval) list"

text \<open>
  Exceptions: the built-in kinds, \<open>new Error(msg)\<close>, and the error a proxy method wraps
  around a caught one (its message quotes the message of the caught exception).
\<close>

datatype exn =
    TypeError
  | SyntaxError
  | UnhandledError
  | Error string
  | CallError exn

text \<open>\<open>if (v)\<close>: the falsy values are undefined, null, false, 0 and the empty string.\<close>

fun truthy :: "jsval \<Rightarrow> bool" where
  "truthy JUndefined = False"
| "truthy JNull = False"
| "truthy (JBool b) = b"
| "truthy (JNum n) = (n \<noteq> 0)"
| "truthy (JStr s) = (s \<noteq> [])"
| "truthy (JFun k src) = True"
| "truthy (JArr xs ps) = True"
| "truthy (JObj ps) = True"

text \<open>\<open>typeof v === 'object'\<close> holds of null, arrays and objects.\<close>

fun typeof_object :: "jsval \<Rightarrow> bool" where
  "typeof_object JNull = True"
| "typeof_object (JArr xs ps) = True"
| "typeof_object (JObj ps) = True"
| "typeof_object v = False"

fun lookup :: "(string \<times> jsval) list \<Rightarrow> string \<Rightarrow> jsval" where
  "lookup [] k = JUndefined"
| "lookup ((k', v) # ps) k = (if k' = k then v else lookup ps k)"

text \<open>
  Reading \<open>v.k\<close> for the property names this program reads (none of them is an index,
  \<open>length\<close> or a prototype member): undefined and null raise, primitives and functions
  have no such property.
\<close>

fun get_prop :: "jsval \<Rightarrow> string \<Rightarrow> exn + jsval" where
  "get_prop JUndefined k = Inl TypeError"
| "get_prop JNull k = Inl TypeError"
| "get_prop (JObj ps) k = Inr (lookup ps k)"
| "get_prop (JArr xs ps) k = Inr (lookup ps k)"
| "get_prop v k = Inr JUndefined"

text \<open>\<open>v.hasOwnProperty(k)\<close>, asked of a value whose \<open>typeof\<close> is \<open>'object'\<close>.\<close>

fun hasOwnProperty :: "jsval \<Rightarrow> string \<Rightarrow> exn + bool" where
  "hasOwnProperty JUndefined k = Inl TypeError"
| "hasOwnProperty JNull k = Inl TypeError"
| "hasOwnProperty (JObj ps) k = Inr (k \<in> set (map fst ps))"
| "hasOwnProperty (JArr xs ps) k = Inr (k \<in> set (map fst ps))"
| "hasOwnProperty v k = Inr False"

subsection \<open>Numbers and values as strings\<close>

definition digit_char :: "nat \<Rightarrow> char" where
  "digit_char d = ''0123456789'' ! d"

fun string_of_nat :: "nat \<Rightarrow> string" where
  "string_of_nat n =
     (if n < 10 then [digit_char n] else string_of_nat (n div 10) @ [digit_char (n mod 10)])"

declare string_of_nat.simps [simp del]

definition string_of_int :: "int \<Rightarrow> string" where
  "string_of_int i = (if i < 0 then CHR ''-'' # string_of_nat (nat (- i)) else string_of_nat (nat i))"

fun join :: "string \<Rightarrow> string list \<Rightarrow> string" where
  "join sep [] = []"
| "join sep [x] = x"
| "join sep (x # y # ys) = x @ sep @ join sep (y # ys)"

text \<open>
  \<open>String(v)\<close>, as a template literal applies it. Arrays join their elements with a comma,
  printing undefined and null as the empty string; objects print with the default
  \<open>toString\<close>.
\<close>

fun js_to_string :: "jsval \<Rightarrow> string" where
  "js_to_string JUndefined = ''undefined''"
| "js_to_string JNull = ''null''"
| "js_to_string (JBool b) = (if b then ''true'' else ''false'')"
| "js_to_string (JNum n) = string_of_int n"
| "js_to_string (JStr s) = s"
| "js_to_string (JFun k src) = src"
| "js_to_string (JArr xs ps) =
     join '','' (map (\<lambda>x. if x = JUndefined \<or> x = JNull then [] else js_to_string x) xs)"
| "js_to_string (JObj ps) = ''[object Object]''"

subsection \<open>Strings\<close>

text \<open>\<open>s.indexOf(c)\<close>: the position of the first \<open>c\<close>, or -1.\<close>

fun indexOf :: "string \<Rightarrow> char \<Rightarrow> int" where
  "indexOf [] c = - 1"
| "indexOf (x # xs) c =
     (if x = c then 0 else (let i = indexOf xs c in if i < 0 then - 1 else i + 1))"

text \<open>\<open>s.split(c)\<close>: the segments between the separators; never the empty list.\<close>

fun split :: "string \<Rightarrow> char \<Rightarrow> string list" where
  "split [] c = [[]]"
| "split (x # xs) c =
     (if x = c then [] # split xs c
      else (case split xs c of [] \<Rightarrow> [[x]] | seg # segs \<Rightarrow> (x # seg) # segs))"

text \<open>\<open>_stripSignature\<close> (VrpcRemote.js, 627-631).\<close>

definition stripSignature :: "string \<Rightarrow> string" where
  "stripSignature method =
     (let pos = indexOf method CHR ''-''
      in if pos > 0 then take (nat pos) method else method)"

subsection \<open>JSON text\<close>

text \<open>
  A broker payload, by what the handlers observe of it: its length is zero, or
  \<open>JSON.parse\<close> raises on its text, or \<open>JSON.parse\<close> returns a value.
\<close>

datatype payload = Empty | Malformed | Json jsval

fun droppable :: "jsval \<Rightarrow> bool" where
  "droppable JUndefined = True"
| "droppable (JFun k src) = True"
| "droppable v = False"

text \<open>
  What \<open>JSON.parse\<close> reads back from the text \<open>JSON.stringify\<close> writes: properties
  holding undefined or a function are left out, such array elements become null, named
  properties of arrays are left out.
\<close>

fun json_value :: "jsval \<Rightarrow> jsval" where
  "json_value (JArr xs ps) = JArr (map (\<lambda>x. if droppable x then JNull else json_value x) xs) []"
| "json_value (JObj ps) =
     JObj (map (\<lambda>kv. (fst kv, json_value (snd kv))) (filter (\<lambda>kv. \<not> droppable (snd kv)) ps))"
| "json_value v = v"

text \<open>\<open>JSON.stringify\<close>, which this program applies to object literals only.\<close>

definition JSON_stringify :: "jsval \<Rightarrow> payload" where
  "JSON_stringify v = Json (json_value v)"

text \<open>\<open>JSON.parse(message.toString())\<close>.\<close>

fun JSON_parse :: "payload \<Rightarrow> exn + jsval" where
  "JSON_parse Empty = Inl SyntaxError"
| "JSON_parse Malformed = Inl SyntaxError"
| "JSON_parse (Json v) = Inr v"

section \<open>The Remote\<close>

subsection \<open>State\<close>

text \<open>The discovery tree \<open>_domains\<close>: objects used as dictionaries, in insertion order.\<close>

record agent_entry =
  status :: jsval
  hostname :: jsval
  classes :: "(string \<times> jsval) list"

record domain_entry =
  agents :: "(string \<times> agent_entry) list"

text \<open>A proxy object: \<open>_targetId\<close>, \<open>_proxyId\<close> and one async method per name.\<close>

record proxy =
  targetId :: jsval
  proxyId :: string
  targetTopic :: string
  methods :: "string list"

text \<open>
  The closures handed to \<open>_eventEmitter\<close>, each with the variables it captures:
  the completion of \<open>_handleAgentAnswer\<close> (promise, timer), the completion of a promise
  token (inner promise), the completion of \<open>_getProxy\<close> (promise, timer, domain, agent,
  class name), and the three sinks of \<open>_packData\<close>.
\<close>

datatype listener =
    AgentAnswer nat nat
  | PromiseAnswer nat
  | ProxyAnswer nat nat string string string
  | OnCallback jsval
  | OnceCallback jsval
  | EmitterCallback jsval jsval

datatype reg = On listener | Once listener

text \<open>The timeout closure: \<open>removeAllListeners(id); reject(new Error(msg))\<close>.\<close>

datatype timer_action = TimeoutCall string nat string

datatype result = Value jsval | Proxy proxy

datatype pstate = Pending | Fulfilled result | Rejected exn | Following nat

text \<open>Calls into user code: \<open>value.apply(null, args)\<close> and \<open>emitter.emit(event, ...args)\<close>.\<close>

datatype call = Apply jsval "jsval list" | EmitterEmit jsval jsval "jsval list"

text \<open>
  The fields of \<open>VrpcRemote\<close> the operations use, and the environment they act on: the
  host name, the pending timers, the promises, the successive results of
  \<open>crypto.randomBytes(2).toString('hex')\<close>, the publications handed to the broker, the
  events the Remote emitted to its observers, and the calls into user code.
\<close>

record remote =
  r_agent :: string
  r_domain :: string
  r_timeout :: int
  r_instance :: string
  r_vrpcClientId :: string
  r_domains :: "(string \<times> domain_entry) list"
  r_eventEmitter :: "string \<Rightarrow> reg list"
  r_invokeId :: nat
  os_hostname :: string
  timers :: "nat \<Rightarrow> timer_action option"
  next_timer :: nat
  promises :: "nat \<Rightarrow> pstate"
  next_promise :: nat
  randomBytes :: "nat \<Rightarrow> string"
  random_ix :: nat
  published :: "(string \<times> payload) list"
  emitted :: "(string \<times> jsval) list"
  calls :: "call list"

subsection \<open>Promises, timers and the event emitter\<close>

definition new_promise :: "remote \<Rightarrow> nat \<times> remote" where
  "new_promise s =
     (next_promise s,
      s\<lparr>promises := (promises s)(next_promise s := Pending), next_promise := Suc (next_promise s)\<rparr>)"

text \<open>A promise settles once: \<open>resolve\<close> and \<open>reject\<close> on a settled or locked promise do nothing.\<close>

definition resolve :: "remote \<Rightarrow> nat \<Rightarrow> result \<Rightarrow> remote" where
  "resolve s p r = (if promises s p = Pending then s\<lparr>promises := (promises s)(p := Fulfilled r)\<rparr> else s)"

definition reject :: "remote \<Rightarrow> nat \<Rightarrow> exn \<Rightarrow> remote" where
  "reject s p e = (if promises s p = Pending then s\<lparr>promises := (promises s)(p := Rejected e)\<rparr> else s)"

text \<open>\<open>resolve(q)\<close> with a promise \<open>q\<close>: \<open>p\<close> takes the state of \<open>q\<close> from then on.\<close>

definition resolve_with :: "remote \<Rightarrow> nat \<Rightarrow> nat \<Rightarrow> remote" where
  "resolve_with s p q = (if promises s p = Pending then s\<lparr>promises := (promises s)(p := Following q)\<rparr> else s)"

definition promise_state :: "remote \<Rightarrow> nat \<Rightarrow> pstate" where
  "promise_state s p = (case promises s p of Following q \<Rightarrow> promises s q | st \<Rightarrow> st)"

definition setTimeout :: "remote \<Rightarrow> timer_action \<Rightarrow> nat \<times> remote" where
  "setTimeout s act =
     (next_timer s,
      s\<lparr>timers := (timers s)(next_timer s \<mapsto> act), next_timer := Suc (next_timer s)\<rparr>)"

definition clearTimeout :: "remote \<Rightarrow> nat \<Rightarrow> remote" where
  "clearTimeout s t = s\<lparr>timers := (timers s)(t := None)\<rparr>"

definition on :: "remote \<Rightarrow> string \<Rightarrow> listener \<Rightarrow> remote" where
  "on s type l = s\<lparr>r_eventEmitter := (r_eventEmitter s)(type := r_eventEmitter s type @ [On l])\<rparr>"

definition once :: "remote \<Rightarrow> string \<Rightarrow> listener \<Rightarrow> remote" where
  "once s type l = s\<lparr>r_eventEmitter := (r_eventEmitter s)(type := r_eventEmitter s type @ [Once l])\<rparr>"

definition removeAllListeners :: "remote \<Rightarrow> string \<Rightarrow> remote" where
  "removeAllListeners s type = s\<lparr>r_eventEmitter := (r_eventEmitter s)(type := [])\<rparr>"

text \<open>A one-shot registration takes itself out of the table before its listener runs.\<close>

definition removeListener :: "remote \<Rightarrow> string \<Rightarrow> reg \<Rightarrow> remote" where
  "removeListener s type r = s\<lparr>r_eventEmitter := (r_eventEmitter s)(type := remove1 r (r_eventEmitter s type))\<rparr>"

text \<open>The timer \<open>t\<close> elapses: its closure runs, if \<open>clearTimeout\<close> has not taken it away.\<close>

definition fire :: "remote \<Rightarrow> nat \<Rightarrow> remote" where
  "fire s t =
     (case timers s t of
        None \<Rightarrow> s
      | Some (TimeoutCall ident p msg) \<Rightarrow>
          reject (removeAllListeners (s\<lparr>timers := (timers s)(t := None)\<rparr>) ident) p (Error msg))"

subsection \<open>Proxies\<close>

text \<open>\<open>new Set(xs)\<close>, in iteration order: the first occurrence of each element.\<close>

definition new_Set :: "string list \<Rightarrow> string list" where
  "new_Set xs = fold (\<lambda>x acc. if x \<in> set acc then acc else acc @ [x]) xs []"

fun typeof_string :: "jsval \<Rightarrow> bool" where
  "typeof_string (JStr s) = True"
| "typeof_string v = False"

text \<open>
  \<open>v.map(name => f(name))\<close> for a callback that reads \<open>name.indexOf\<close>: it raises unless
  \<open>v\<close> is an array, and on an element that is no string (an element that is itself an
  array, the one other value with an \<open>indexOf\<close>, is not modelled).
\<close>

fun map_names :: "(string \<Rightarrow> string) \<Rightarrow> jsval \<Rightarrow> exn + string list" where
  "map_names f (JArr xs ps) =
     (if list_all typeof_string xs then Inr (map (\<lambda>x. f (js_to_string x)) xs) else Inl TypeError)"
| "map_names f v = Inl TypeError"

text \<open>\<open>this._domains[domain].agents[agent].classes[className]\<close>.\<close>

definition class_entry :: "remote \<Rightarrow> string \<Rightarrow> string \<Rightarrow> string \<Rightarrow> exn + jsval" where
  "class_entry s domain agent className =
     (case map_of (r_domains s) domain of
        None \<Rightarrow> Inl TypeError
      | Some d \<Rightarrow>
          (case map_of (agents d) agent of
             None \<Rightarrow> Inl TypeError
           | Some a \<Rightarrow>
               Inr (case map_of (classes a) className of None \<Rightarrow> JUndefined | Some info \<Rightarrow> info)))"

text \<open>
  \<open>_createProxy\<close> (VrpcRemote.js, 504-542). The result is the outcome of the async
  function: the proxy, or the exception its promise is rejected with.
\<close>

definition createProxy ::
  "remote \<Rightarrow> string \<Rightarrow> string \<Rightarrow> string \<Rightarrow> jsval \<Rightarrow> (exn + proxy) \<times> remote" where
  "createProxy s domain agent className data =
     (case get_prop data ''r'' of
        Inl e \<Rightarrow> (Inl e, s)
      | Inr inst \<Rightarrow>
          (let topic = domain @ ''/'' @ agent @ ''/'' @ className @ ''/'' @ js_to_string inst;
               pid = randomBytes s (random_ix s);
               s' = s\<lparr>random_ix := Suc (random_ix s)\<rparr>
           in case class_entry s' domain agent className of
                Inl e \<Rightarrow> (Inl e, s')
              | Inr info \<Rightarrow>
                  (case get_prop info ''memberFunctions'' of
                     Inl e \<Rightarrow> (Inl e, s')
                   | Inr fs \<Rightarrow>
                       (case map_names
                              (\<lambda>name. let pos = indexOf name CHR ''-''
                                       in if pos > 0 then take (nat pos) name else name) fs of
                          Inl e \<Rightarrow> (Inl e, s')
                        | Inr functions \<Rightarrow>
                            (Inr \<lparr>targetId = inst, proxyId = pid, targetTopic = topic,
                                  methods = new_Set functions\<rparr>, s')))))"

subsection \<open>Packing arguments\<close>

definition MAX_SAFE_INTEGER :: nat where
  "MAX_SAFE_INTEGER = 9007199254740991"

text \<open>\<open>this._invokeId++\<close> on a double: past 2^53 the increment is lost to rounding.\<close>

definition increment :: "nat \<Rightarrow> nat" where
  "increment n = (if n < 9007199254740992 then n + 1 else n)"

text \<open>\<open>_isFunction\<close> (633-638) and \<open>_isEmitter\<close> (640-648).\<close>

fun isFunction :: "jsval \<Rightarrow> bool" where
  "isFunction (JFun k src) = True"
| "isFunction variable = False"

definition isEmitter :: "jsval \<Rightarrow> exn + bool" where
  "isEmitter variable =
     (if \<not> typeof_object variable then Inr False
      else case hasOwnProperty variable ''emitter'' of
        Inl e \<Rightarrow> Inl e
      | Inr False \<Rightarrow> Inr False
      | Inr True \<Rightarrow>
          (case hasOwnProperty variable ''event'' of
             Inl e \<Rightarrow> Inl e
           | Inr False \<Rightarrow> Inr False
           | Inr True \<Rightarrow>
               (case get_prop variable ''emitter'' of
                  Inl e \<Rightarrow> Inl e
                | Inr em \<Rightarrow>
                    if \<not> typeof_object em then Inr False
                    else (case get_prop em ''emit'' of
                            Inl e \<Rightarrow> Inl e
                          | Inr f \<Rightarrow> Inr (isFunction f)))))"

text \<open>\<open>args[i]\<close>, undefined out of range.\<close>

definition arg_at :: "jsval list \<Rightarrow> nat \<Rightarrow> jsval" where
  "arg_at args i = (if i < length args then args ! i else JUndefined)"

text \<open>
  The body of \<open>args.forEach\<close> in \<open>_packData\<close> (577-625), from position \<open>index\<close> on. An
  exception leaves the registrations made so far in place.
\<close>

fun packArgs ::
  "string \<Rightarrow> string \<Rightarrow> jsval list \<Rightarrow> nat \<Rightarrow> jsval list \<Rightarrow> (string \<times> jsval) list \<Rightarrow> remote
     \<Rightarrow> (exn + (string \<times> jsval) list) \<times> remote" where
  "packArgs pid functionName args index [] data s = (Inr data, s)"
| "packArgs pid functionName args index (v # rest) data s =
     (if isFunction v then
        (if functionName = ''on'' \<and> index = 1 \<and> typeof_string (arg_at args 0) then
           (let ident = ''__f__'' @ pid @ ''-'' @ functionName @ ''-'' @ string_of_nat index @ ''-''
                          @ js_to_string (arg_at args 0)
            in packArgs pid functionName args (Suc index) rest
                 (AList.update (''_'' @ string_of_nat (index + 1)) (JStr ident) data)
                 (on s ident (OnCallback v)))
         else
           (let ident = ''__f__'' @ pid @ ''-'' @ functionName @ ''-'' @ string_of_nat index @ ''-''
                          @ string_of_nat (r_invokeId s mod MAX_SAFE_INTEGER);
                s1 = s\<lparr>r_invokeId := increment (r_invokeId s)\<rparr>
            in packArgs pid functionName args (Suc index) rest
                 (AList.update (''_'' @ string_of_nat (index + 1)) (JStr ident) data)
                 (once s1 ident (OnceCallback v))))
      else
        (case isEmitter v of
           Inl e \<Rightarrow> (Inl e, s)
         | Inr True \<Rightarrow>
             (case get_prop v ''emitter'' of
                Inl e \<Rightarrow> (Inl e, s)
              | Inr emitter \<Rightarrow>
                  (case get_prop v ''event'' of
                     Inl e \<Rightarrow> (Inl e, s)
                   | Inr event \<Rightarrow>
                       (let ident = ''__f__'' @ pid @ ''-'' @ functionName @ ''-''
                                      @ string_of_nat index @ ''-'' @ js_to_string event
                        in packArgs pid functionName args (Suc index) rest
                             (AList.update (''_'' @ string_of_nat (index + 1)) (JStr ident) data)
                             (on s ident (EmitterCallback emitter event)))))
         | Inr False \<Rightarrow>
             packArgs pid functionName args (Suc index) rest
               (AList.update (''_'' @ string_of_nat (index + 1)) v data) s))"

definition packData ::
  "remote \<Rightarrow> string \<Rightarrow> string \<Rightarrow> jsval list \<Rightarrow> (exn + (string \<times> jsval) list) \<times> remote" where
  "packData s pid functionName args = packArgs pid functionName args 0 args [] s"

subsection \<open>Listeners\<close>

text \<open>\<open>Object.keys(data)\<close>; the order among an object's keys does not matter to its one
  use, which sorts them.\<close>

fun own_keys :: "jsval \<Rightarrow> exn + string list" where
  "own_keys JUndefined = Inl TypeError"
| "own_keys JNull = Inl TypeError"
| "own_keys (JObj ps) = Inr (map fst ps)"
| "own_keys (JArr xs ps) = Inr (map string_of_nat [0..<length xs] @ map fst ps)"
| "own_keys (JStr s) = Inr (map string_of_nat [0..<length s])"
| "own_keys v = Inr []"

text \<open>\<open>data[key]\<close> for an own key that begins with an underscore.\<close>

fun own_prop :: "jsval \<Rightarrow> string \<Rightarrow> jsval" where
  "own_prop (JObj ps) key = lookup ps key"
| "own_prop (JArr xs ps) key = lookup ps key"
| "own_prop v key = JUndefined"

text \<open>
  \<open>Object.keys(data).sort().filter(value => value[0] === '_').map(key => data[key])\<close>:
  the default sort compares the keys as strings, by code units.
\<close>

definition callback_args :: "jsval \<Rightarrow> exn + jsval list" where
  "callback_args data =
     (case own_keys data of
        Inl e \<Rightarrow> Inl e
      | Inr ks \<Rightarrow> Inr (map (own_prop data) (filter (\<lambda>v. take 1 v = ''_'') (sort ks))))"

fun is_promise_token :: "jsval \<Rightarrow> bool" where
  "is_promise_token (JStr ret) = (take 5 ret = ''__p__'')"
| "is_promise_token ret = False"

text \<open>
  What each listener does with the \<open>data\<close> it is called on. \<open>Inl\<close>: the listener throws,
  out of \<open>emit\<close> and out of the message handler.
\<close>

fun deliver :: "remote \<Rightarrow> listener \<Rightarrow> jsval \<Rightarrow> exn + remote" where
  "deliver s (AgentAnswer p t) data =
     (let s1 = clearTimeout s t
      in case get_prop data ''e'' of
           Inl e \<Rightarrow> Inl e
         | Inr err \<Rightarrow>
             if truthy err then Inr (reject s1 p (Error (js_to_string err)))
             else (case get_prop data ''r'' of
                     Inl e \<Rightarrow> Inl e
                   | Inr ret \<Rightarrow>
                       if is_promise_token ret then
                         (let (q, s2) = new_promise s1;
                              s3 = once s2 (js_to_string ret) (PromiseAnswer q)
                          in Inr (resolve_with s3 p q))
                       else Inr (resolve s1 p (Value ret))))"
| "deliver s (PromiseAnswer q) promiseData =
     (case get_prop promiseData ''e'' of
        Inl e \<Rightarrow> Inl e
      | Inr err \<Rightarrow>
          if truthy err then Inr (reject s q (Error (js_to_string err)))
          else (case get_prop promiseData ''r'' of
                  Inl e \<Rightarrow> Inl e
                | Inr r \<Rightarrow> Inr (resolve s q (Value r))))"
| "deliver s (ProxyAnswer p t domain agent className) data =
     (let s1 = clearTimeout s t
      in case get_prop data ''e'' of
           Inl e \<Rightarrow> Inl e
         | Inr err \<Rightarrow>
             if truthy err then Inr (reject s1 p (Error (js_to_string err)))
             else (let (q, s2) = new_promise s1;
                       (res, s3) = createProxy s2 domain agent className data;
                       s4 = (case res of Inl ex \<Rightarrow> reject s3 q ex | Inr px \<Rightarrow> resolve s3 q (Proxy px))
                   in Inr (resolve_with s4 p q)))"
| "deliver s (OnCallback v) data =
     (case callback_args data of
        Inl e \<Rightarrow> Inl e
      | Inr args \<Rightarrow> Inr (s\<lparr>calls := calls s @ [Apply v args]\<rparr>))"
| "deliver s (OnceCallback v) data =
     (case callback_args data of
        Inl e \<Rightarrow> Inl e
      | Inr args \<Rightarrow> Inr (s\<lparr>calls := calls s @ [Apply v args]\<rparr>))"
| "deliver s (EmitterCallback emitter event) data =
     (case callback_args data of
        Inl e \<Rightarrow> Inl e
      | Inr args \<Rightarrow> Inr (s\<lparr>calls := calls s @ [EmitterEmit emitter event args]\<rparr>))"

text \<open>\<open>emit\<close> calls the listeners registered when it starts, in order.\<close>

fun run_listeners :: "remote \<Rightarrow> string \<Rightarrow> jsval \<Rightarrow> reg list \<Rightarrow> exn + remote" where
  "run_listeners s type data [] = Inr s"
| "run_listeners s type data (On l # rest) =
     (case deliver s l data of
        Inl e \<Rightarrow> Inl e
      | Inr s' \<Rightarrow> run_listeners s' type data rest)"
| "run_listeners s type data (Once l # rest) =
     (case deliver (removeListener s type (Once l)) l data of
        Inl e \<Rightarrow> Inl e
      | Inr s' \<Rightarrow> run_listeners s' type data rest)"

text \<open>
  \<open>this._eventEmitter.emit(type, data)\<close>: without a listener nothing happens, except that
  the type \<open>'error'\<close> then throws.
\<close>

definition emit :: "remote \<Rightarrow> jsval \<Rightarrow> jsval \<Rightarrow> exn + remote" where
  "emit s type data =
     (let handlers = r_eventEmitter s (js_to_string type)
      in if handlers = [] then (if type = JStr ''error'' then Inl UnhandledError else Inr s)
         else run_listeners s (js_to_string type) data handlers)"

subsection \<open>The message handler\<close>

text \<open>\<open>_createIfNotExist\<close> (456-463).\<close>

definition createIfNotExist :: "remote \<Rightarrow> string \<Rightarrow> string \<Rightarrow> remote" where
  "createIfNotExist s domain agent =
     (let d = (case map_of (r_domains s) domain of None \<Rightarrow> \<lparr>agents = []\<rparr> | Some d \<Rightarrow> d);
          d' = (case map_of (agents d) agent of
                  None \<Rightarrow> d\<lparr>agents := AList.update agent
                                        \<lparr>status = JUndefined, hostname = JUndefined, classes = []\<rparr>
                                        (agents d)\<rparr>
                | Some a \<Rightarrow> d)
      in s\<lparr>r_domains := AList.update domain d' (r_domains s)\<rparr>)"

text \<open>An assignment to \<open>this._domains[domain].agents[agent]\<close>, once the entry exists.\<close>

definition update_agent :: "remote \<Rightarrow> string \<Rightarrow> string \<Rightarrow> (agent_entry \<Rightarrow> agent_entry) \<Rightarrow> remote" where
  "update_agent s domain agent f =
     s\<lparr>r_domains :=
         map (\<lambda>(dk, d). if dk = domain
                then (dk, d\<lparr>agents := map (\<lambda>(ak, a). if ak = agent then (ak, f a) else (ak, a)) (agents d)\<rparr>)
                else (dk, d))
             (r_domains s)\<rparr>"

text \<open>An element of the destructured \<open>tokens\<close>: undefined past the end.\<close>

definition token :: "string list \<Rightarrow> nat \<Rightarrow> jsval" where
  "token tokens i = (if i < length tokens then JStr (tokens ! i) else JUndefined)"

text \<open>
  The \<open>'message'\<close> handler installed by \<open>_init\<close> (414-453). \<open>Inl\<close>: the handler throws;
  nothing in this program catches it.
\<close>

definition on_message :: "remote \<Rightarrow> string \<Rightarrow> payload \<Rightarrow> exn + remote" where
  "on_message s topic message =
     (if message = Empty then Inr s
      else
        (let tokens = split topic CHR ''/'';
             domain = token tokens 0;
             agent = token tokens 1;
             klass = token tokens 2;
             inst = token tokens 3;
             func = token tokens 4
         in if func = JStr ''__info__'' \<and> inst = JStr ''__static__'' then
              (if klass = JStr ''__agent__'' then
                 (case JSON_parse message of
                    Inl e \<Rightarrow> Inl e
                  | Inr json \<Rightarrow>
                      (case get_prop json ''status'' of
                         Inl e \<Rightarrow> Inl e
                       | Inr st \<Rightarrow>
                           (case get_prop json ''hostname'' of
                              Inl e \<Rightarrow> Inl e
                            | Inr hn \<Rightarrow>
                                (let s1 = createIfNotExist s (js_to_string domain) (js_to_string agent);
                                     s2 = update_agent s1 (js_to_string domain) (js_to_string agent)
                                            (\<lambda>a. a\<lparr>status := st\<rparr>);
                                     s3 = update_agent s2 (js_to_string domain) (js_to_string agent)
                                            (\<lambda>a. a\<lparr>hostname := hn\<rparr>)
                                 in Inr (s3\<lparr>emitted := emitted s3 @
                                           [(''agent'', JObj [(''domain'', domain), (''agent'', agent),
                                                              (''status'', st), (''hostname'', hn)])]\<rparr>)))))
               else
                 (case JSON_parse message of
                    Inl e \<Rightarrow> Inl e
                  | Inr json \<Rightarrow>
                      (let s1 = createIfNotExist s (js_to_string domain) (js_to_string agent);
                           s2 = update_agent s1 (js_to_string domain) (js_to_string agent)
                                  (\<lambda>a. a\<lparr>classes := AList.update (js_to_string klass) json (classes a)\<rparr>)
                       in case get_prop json ''className'' of
                            Inl e \<Rightarrow> Inl e
                          | Inr className \<Rightarrow>
                              (case get_prop json ''instances'' of
                                 Inl e \<Rightarrow> Inl e
                               | Inr instances \<Rightarrow>
                                   (case get_prop json ''memberFunctions'' of
                                      Inl e \<Rightarrow> Inl e
                                    | Inr memberFunctions \<Rightarrow>
                                        (case get_prop json ''staticFunctions'' of
                                           Inl e \<Rightarrow> Inl e
                                         | Inr staticFunctions \<Rightarrow>
                                             Inr (s2\<lparr>emitted := emitted s2 @
                                                   [(''class'',
                                                     JObj [(''domain'', domain), (''agent'', agent),
                                                           (''className'', className),
                                                           (''instances'', instances),
                                                           (''memberFunctions'', memberFunctions),
                                                           (''staticFunctions'', staticFunctions)])]\<rparr>)))))))
            else
              (case JSON_parse message of
                 Inl e \<Rightarrow> Inl e
               | Inr json \<Rightarrow>
                   (case get_prop json ''id'' of
                      Inl e \<Rightarrow> Inl e
                    | Inr ident \<Rightarrow>
                        (case get_prop json ''data'' of
                           Inl e \<Rightarrow> Inl e
                         | Inr data \<Rightarrow> emit s ident data)))))"

subsection \<open>Requests\<close>

text \<open>The request object \<open>json\<close> and its text on the wire.\<close>

record request =
  q_targetId :: jsval
  q_method :: string
  q_id :: string
  q_sender :: string
  q_data :: "(string \<times> jsval) list"

definition request_obj :: "request \<Rightarrow> jsval" where
  "request_obj q =
     JObj [(''targetId'', q_targetId q), (''method'', JStr (q_method q)), (''id'', JStr (q_id q)),
           (''sender'', JStr (q_sender q)), (''data'', JObj (q_data q))]"

text \<open>\<open>await this._mqttPublish(topic, text)\<close>, on a connection that takes the publication.\<close>

definition mqttPublish :: "remote \<Rightarrow> string \<Rightarrow> payload \<Rightarrow> remote" where
  "mqttPublish s topic text = s\<lparr>published := published s @ [(topic, text)]\<rparr>"

text \<open>The correlation id \<open>`${this._instance}-${this._invokeId++ % Number.MAX_SAFE_INTEGER}`\<close>.\<close>

definition next_id :: "remote \<Rightarrow> string \<times> remote" where
  "next_id s =
     (r_instance s @ ''-'' @ string_of_nat (r_invokeId s mod MAX_SAFE_INTEGER),
      s\<lparr>r_invokeId := increment (r_invokeId s)\<rparr>)"

text \<open>\<open>_handleAgentAnswer\<close> (544-575): the promise it returns, and the state it leaves.\<close>

definition handleAgentAnswer :: "remote \<Rightarrow> string \<Rightarrow> nat \<times> remote" where
  "handleAgentAnswer s ident =
     (let (p, s1) = new_promise s;
          msg = ''Function call timed out (> '' @ string_of_int (r_timeout s) @ '' ms)'';
          (timer, s2) = setTimeout s1 (TimeoutCall ident p msg)
      in (p, once s2 ident (AgentAnswer p timer)))"

text \<open>\<open>_getProxy\<close> (479-502).\<close>

definition getProxy :: "remote \<Rightarrow> string \<Rightarrow> string \<Rightarrow> string \<Rightarrow> request \<Rightarrow> nat \<times> remote" where
  "getProxy s domain agent className json =
     (let topic = domain @ ''/'' @ agent @ ''/'' @ className @ ''/__static__/'' @ q_method json;
          s0 = mqttPublish s topic (JSON_stringify (request_obj json));
          (p, s1) = new_promise s0;
          msg = ''Proxy creation timed out (> '' @ string_of_int (r_timeout s) @ '' ms)'';
          (timer, s2) = setTimeout s1 (TimeoutCall (q_id json) p msg)
      in (p, once s2 (q_id json) (ProxyAnswer p timer domain agent className)))"

text \<open>A parameter with a default: the default stands in when the caller leaves it out.\<close>

definition default_to :: "string \<Rightarrow> string option \<Rightarrow> string" where
  "default_to d v = (case v of None \<Rightarrow> d | Some x \<Rightarrow> x)"

fun assign_args :: "nat \<Rightarrow> nat \<Rightarrow> jsval list \<Rightarrow> (string \<times> jsval) list \<Rightarrow> (string \<times> jsval) list" where
  "assign_args offset index [] data = data"
| "assign_args offset index (v # rest) data =
     assign_args offset (Suc index) rest (AList.update (''_'' @ string_of_nat (index + offset)) v data)"

text \<open>
  The public operations, on a connected client (\<open>await this.connected()\<close> returns). Each
  gives the exception it throws or the promise it hands on, and the state it leaves.
  \<open>create\<close> (110-133):
\<close>

definition create ::
  "remote \<Rightarrow> string \<Rightarrow> jsval \<Rightarrow> jsval list \<Rightarrow> string option \<Rightarrow> string option \<Rightarrow> (exn + nat) \<times> remote" where
  "create s className inst args agent_arg domain_arg =
     (let agent = default_to (r_agent s) agent_arg;
          domain = default_to (r_domain s) domain_arg
      in if agent = ''*'' then (Inl (Error ''Agent must be specified''), s)
         else if domain = ''*'' then (Inl (Error ''Domain must be specified''), s)
         else
           (let data0 = (if truthy inst then [(''_1'', inst)] else []);
                offset = (if truthy inst then 2 else 1);
                data = assign_args offset 0 args data0;
                (ident, s1) = next_id s;
                json = \<lparr>q_targetId = JStr className,
                        q_method = (if truthy inst then ''__createNamed__'' else ''__create__''),
                        q_id = ident,
                        q_sender = domain @ ''/'' @ os_hostname s @ ''/'' @ r_instance s,
                        q_data = data\<rparr>;
                (p, s2) = getProxy s1 domain agent className json
            in (Inr p, s2)))"

text \<open>\<open>getInstance\<close> (144-159):\<close>

definition getInstance ::
  "remote \<Rightarrow> string \<Rightarrow> jsval \<Rightarrow> string option \<Rightarrow> string option \<Rightarrow> (exn + nat) \<times> remote" where
  "getInstance s className inst agent_arg domain_arg =
     (let agent = default_to (r_agent s) agent_arg;
          domain = default_to (r_domain s) domain_arg;
          (ident, s1) = next_id s;
          json = \<lparr>q_targetId = JStr className,
                  q_method = ''__getNamed__'',
                  q_id = ident,
                  q_sender = domain @ ''/'' @ os_hostname s @ ''/'' @ r_instance s,
                  q_data = [(''_1'', inst)]\<rparr>;
          (p, s2) = getProxy s1 domain agent className json
      in (Inr p, s2))"




text \<open>\<open>callStatic\<close> (196-215):\<close>

definition callStatic ::
  "remote \<Rightarrow> string \<Rightarrow> string \<Rightarrow> jsval list \<Rightarrow> string option \<Rightarrow> string option \<Rightarrow> (exn + nat) \<times> remote" where
  "callStatic s className functionName args agent_arg domain_arg =
     (let agent = default_to (r_agent s) agent_arg;
          domain = default_to (r_domain s) domain_arg
      in if domain = ''*'' then (Inl (Error ''You must specify a domain''), s)
         else
           (let (ident, s1) = next_id s
            in case packData s1 className functionName args of
                 (Inl e, s2) \<Rightarrow> (Inl e, s2)
               | (Inr data, s2) \<Rightarrow>
                   (let json = \<lparr>q_targetId = JStr className,
                                q_method = functionName,
                                q_id = ident,
                                q_sender = r_vrpcClientId s,
                                q_data = data\<rparr>;
                        topic = domain @ ''/'' @ agent @ ''/'' @ className @ ''/__static__/'' @ functionName;
                        s3 = mqttPublish s2 topic (JSON_stringify (request_obj json));
                        (p, s4) = handleAgentAnswer s3 (q_id json)
                    in (Inr p, s4))))"


text \<open>\<open>getAvailableMemberFunctions\<close> (304-315) and \<open>getAvailableStaticFunctions\<close> (325-336).\<close>

definition available_functions ::
  "string \<Rightarrow> remote \<Rightarrow> string \<Rightarrow> string option \<Rightarrow> string option \<Rightarrow> exn + string list" where
  "available_functions field s className agent_arg domain_arg =
     (let agent = default_to (r_agent s) agent_arg;
          domain = default_to (r_domain s) domain_arg
      in if agent = ''*'' then Inl (Error ''Agent must be specified'')
         else if domain = ''*'' then Inl (Error ''Domain must be specified'')
         else
           (case map_of (r_domains s) domain of
              None \<Rightarrow> Inr []
            | Some d \<Rightarrow>
                (case map_of (agents d) agent of
                   None \<Rightarrow> Inr []
                 | Some a \<Rightarrow>
                     (case map_of (classes a) className of
                        None \<Rightarrow> Inr []
                      | Some info \<Rightarrow>
                          if truthy info then
                            (case get_prop info field of
                               Inl e \<Rightarrow> Inl e
                             | Inr fs \<Rightarrow> map_names (\<lambda>name. stripSignature name) fs)
                          else Inr []))))"

definition getAvailableMemberFunctions ::
  "remote \<Rightarrow> string \<Rightarrow> string option \<Rightarrow> string option \<Rightarrow> exn + string list" where
  "getAvailableMemberFunctions = available_functions ''memberFunctions''"

definition getAvailableStaticFunctions ::
  "remote \<Rightarrow> string \<Rightarrow> string option \<Rightarrow> string option \<Rightarrow> exn + string list" where
  "getAvailableStaticFunctions = available_functions ''staticFunctions''"

section \<open>The Agent\<close>

text \<open>
  \<open>VrpcAdapter\<close> is not among the sources; the Agent is modelled over any adapter, given
  by the results of the five operations the Agent calls. \<open>adapter_call\<close> returns the
  request as the adapter mutated it, or the exception it throws.
\<close>

record adapter =
  getClassesArray :: "string list"
  getInstancesArray :: "string \<Rightarrow> string list"
  getMemberFunctionsArray :: "string \<Rightarrow> string list"
  getStaticFunctionsArray :: "string \<Rightarrow> string list"
  adapter_call :: "jsval \<Rightarrow> exn + jsval"

text \<open>A line handed to \<open>this._log\<close>; an error line carries the exception it reports.\<close>

datatype log_entry =
    LogInfo string
  | LogDebug string
  | LogWarn string
  | LogError exn string

text \<open>A publication: topic, text, QoS and the retain flag.\<close>

record publication =
  pub_topic :: jsval
  pub_text :: payload
  pub_qos :: nat
  pub_retain :: bool

record agent =
  a_domain :: string
  a_agent :: string
  a_baseTopic :: string
  a_log :: "log_entry list"
  a_subscribed :: "string list"
  a_published :: "publication list"
  a_called :: "jsval list"

definition log_line :: "agent \<Rightarrow> log_entry \<Rightarrow> agent" where
  "log_line s l = s\<lparr>a_log := a_log s @ [l]\<rparr>"

definition strings :: "string list \<Rightarrow> jsval" where
  "strings xs = JArr (map JStr xs) []"

text \<open>\<open>_generateTopics\<close> (VrpcAgent.js, 111-122).\<close>

definition generateTopics :: "adapter \<Rightarrow> agent \<Rightarrow> string list \<times> agent" where
  "generateTopics ad s =
     (concat (map (\<lambda>klass. map (\<lambda>func. a_baseTopic s @ ''/'' @ klass @ ''/__static__/'' @ func)
                                (getStaticFunctionsArray ad klass))
                  (getClassesArray ad)),
      log_line s (LogInfo (''Registering classes: '' @ join '','' (getClassesArray ad))))"

text \<open>The class information \<open>_handleConnect\<close> publishes for one class (90-101).\<close>

definition class_info :: "adapter \<Rightarrow> string \<Rightarrow> jsval" where
  "class_info ad klass =
     JObj [(''class'', JStr klass),
           (''instances'', strings (getInstancesArray ad klass)),
           (''memberFunctions'', strings (getMemberFunctionsArray ad klass)),
           (''staticFunctions'', strings (getStaticFunctionsArray ad klass))]"

text \<open>\<open>_handleConnect\<close> (76-109), on a broker that takes the subscription and the publications.\<close>

definition handleConnect :: "adapter \<Rightarrow> agent \<Rightarrow> agent" where
  "handleConnect ad s =
     (let s1 = log_line s (LogInfo ''[OK]'');
          (topics, s2) = generateTopics ad s1;
          s3 = s2\<lparr>a_subscribed := a_subscribed s2 @ topics\<rparr>
      in s3\<lparr>a_published := a_published s3 @
              map (\<lambda>klass. \<lparr>pub_topic = JStr (a_baseTopic s @ ''/'' @ klass @ ''/__static__/__info__''),
                             pub_text = JSON_stringify (class_info ad klass),
                             pub_qos = 1, pub_retain = True\<rparr>)
                  (getClassesArray ad)\<rparr>)"

text \<open>
  The assignment \<open>json.k = v\<close> in strict code: it raises on undefined, null and the
  primitives. (A function is no JSON value; its properties are not modelled.)
\<close>

fun set_prop :: "jsval \<Rightarrow> string \<Rightarrow> jsval \<Rightarrow> exn + jsval" where
  "set_prop (JObj ps) k v = Inr (JObj (AList.update k v ps))"
| "set_prop (JArr xs ps) k v = Inr (JArr xs (AList.update k v ps))"
| "set_prop (JFun f src) k v = Inr (JFun f src)"
| "set_prop j k v = Inl TypeError"

text \<open>\<open>_subscribeToMethodsOfNewInstance\<close> (158-165).\<close>

definition subscribeToMethodsOfNewInstance :: "adapter \<Rightarrow> agent \<Rightarrow> string \<Rightarrow> jsval \<Rightarrow> agent" where
  "subscribeToMethodsOfNewInstance ad s klass inst =
     fold (\<lambda>method s'.
             (let topic = a_baseTopic s @ ''/'' @ klass @ ''/'' @ js_to_string inst @ ''/'' @ method
              in log_line (s'\<lparr>a_subscribed := a_subscribed s' @ [topic]\<rparr>)
                   (LogDebug (''Subscribed to new topic after instantiation: '' @ topic))))
          (getMemberFunctionsArray ad klass) s"

text \<open>
  The \<open>try\<close> block of \<open>_handleMessage\<close> (131-152): the exception that leaves it, if any,
  and the state at that point.
\<close>

definition handleMessage_try :: "adapter \<Rightarrow> agent \<Rightarrow> string \<Rightarrow> payload \<Rightarrow> (exn + unit) \<times> agent" where
  "handleMessage_try ad s topic data =
     (case JSON_parse data of
        Inl e \<Rightarrow> (Inl e, s)
      | Inr json \<Rightarrow>
          (let s1 = log_line s (LogDebug (''Message arrived with topic: '' @ topic @ '' and payload:''));
               tokens = split topic CHR ''/''
           in if length tokens \<noteq> 5 then
                (Inr (), log_line s1 (LogWarn (''Ignoring message with invalid topic: '' @ topic)))
              else
                (let klass = tokens ! 2;
                     inst = tokens ! 3;
                     method = tokens ! 4
                 in case set_prop json ''targetId'' (JStr (if inst = ''__static__'' then klass else inst)) of
                      Inl e \<Rightarrow> (Inl e, s1)
                    | Inr j1 \<Rightarrow>
                        (case set_prop j1 ''method'' (JStr method) of
                           Inl e \<Rightarrow> (Inl e, s1)
                         | Inr j2 \<Rightarrow>
                             (let s2 = s1\<lparr>a_called := a_called s1 @ [j2]\<rparr>
                              in case adapter_call ad j2 of
                                   Inl e \<Rightarrow> (Inl e, s2)
                                 | Inr j3 \<Rightarrow>
                                     (case (if method = ''__create__'' \<or> method = ''__createNamed__'' then
                                              (case get_prop j3 ''data'' of
                                                 Inl e \<Rightarrow> Inl e
                                               | Inr d \<Rightarrow>
                                                   (case get_prop d ''r'' of
                                                      Inl e \<Rightarrow> Inl e
                                                    | Inr instanceId \<Rightarrow>
                                                        Inr (subscribeToMethodsOfNewInstance ad s2 klass instanceId)))
                                            else Inr s2) of
                                        Inl e \<Rightarrow> (Inl e, s2)
                                      | Inr s3 \<Rightarrow>
                                          (case get_prop j3 ''sender'' of
                                             Inl e \<Rightarrow> (Inl e, s3)
                                           | Inr sender \<Rightarrow>
                                               (Inr (),
                                                s3\<lparr>a_published := a_published s3 @
                                                     [\<lparr>pub_topic = sender, pub_text = JSON_stringify j3,
                                                       pub_qos = 1, pub_retain = False\<rparr>]\<rparr>))))))))"

text \<open>\<open>_handleMessage\<close> (130-156): the \<open>catch\<close> logs whatever the \<open>try\<close> block throws.\<close>

definition handleMessage :: "adapter \<Rightarrow> agent \<Rightarrow> string \<Rightarrow> payload \<Rightarrow> (exn + unit) \<times> agent" where
  "handleMessage ad s topic data =
     (case handleMessage_try ad s topic data of
        (Inl err, s') \<Rightarrow>
          (Inr (), log_line s' (LogError err ''Problem while handling incoming message: ''))
      | (Inr u, s') \<Rightarrow> (Inr u, s'))"

section \<open>Construction and sample configurations\<close>

text \<open>
  The constructor of \<open>VrpcRemote\<close> (VrpcRemote.js, 71-96), from the agent, domain and
  timeout options, the host name and the supply of random tokens; the first token is
  the instance.
\<close>

definition VrpcRemote ::
  "string option \<Rightarrow> string option \<Rightarrow> int option \<Rightarrow> string \<Rightarrow> (nat \<Rightarrow> string) \<Rightarrow> remote" where
  "VrpcRemote agent_arg domain_arg timeout_arg host rnd =
     \<lparr>r_agent = default_to ''*'' agent_arg,
      r_domain = default_to ''*'' domain_arg,
      r_timeout = (case timeout_arg of None \<Rightarrow> 5 * 1000 | Some t \<Rightarrow> t),
      r_instance = rnd 0,
      r_vrpcClientId = default_to ''*'' domain_arg @ ''/'' @ host @ ''/'' @ rnd 0,
      r_domains = [],
      r_eventEmitter = (\<lambda>type. []),
      r_invokeId = 0,
      os_hostname = host,
      timers = (\<lambda>t. None),
      next_timer = 0,
      promises = (\<lambda>p. Pending),
      next_promise = 0,
      randomBytes = rnd,
      random_ix = 1,
      published = [],
      emitted = [],
      calls = []\<rparr>"

text \<open>The constructor of \<open>VrpcAgent\<close> (VrpcAgent.js, 8-30).\<close>

definition VrpcAgent :: "string \<Rightarrow> string \<Rightarrow> agent" where
  "VrpcAgent domain agent =
     \<lparr>a_domain = domain, a_agent = agent, a_baseTopic = domain @ ''/'' @ agent,
      a_log = [], a_subscribed = [], a_published = [], a_called = []\<rparr>"

text \<open>
  A Remote built with the default options on the host \<open>host\<close>, with instance token
  \<open>ab12\<close>, and an adapter serving one class \<open>Foo\<close>.
\<close>

definition sample_random :: "nat \<Rightarrow> string" where
  "sample_random n = (if n = 0 then ''ab12'' else ''c0de'')"

definition sample_remote :: remote where
  "sample_remote = VrpcRemote None None None ''host'' sample_random"

definition sample_adapter :: adapter where
  "sample_adapter =
     \<lparr>getClassesArray = [''Foo''],
      getInstancesArray = (\<lambda>klass. []),
      getMemberFunctionsArray = (\<lambda>klass. [''bar'']),
      getStaticFunctionsArray = (\<lambda>klass. [''baz'']),
      adapter_call = (\<lambda>json. Inr json)\<rparr>"

text \<open>The events a run of the message handler has emitted to the observers.\<close>

definition events_of :: "exn + remote \<Rightarrow> exn + (string \<times> jsval) list" where
  "events_of r = (case r of Inl e \<Rightarrow> Inl e | Inr s \<Rightarrow> Inr (emitted s))"

text \<open>The method names of the proxy \<open>_createProxy\<close> returns.\<close>

definition proxy_methods :: "(exn + proxy) \<times> remote \<Rightarrow> exn + string list" where
  "proxy_methods r = (case fst r of Inl e \<Rightarrow> Inl e | Inr px \<Rightarrow> Inr (methods px))"


text \<open>
  The sample Remote after the class information of a class \<open>Foo\<close> of agent \<open>a\<close> in
  domain \<open>d\<close> has arrived, with a member function and a static function whose names
  begin with \<open>-\<close>.
\<close>

definition dashed_remote :: remote where
  "dashed_remote =
     sample_remote\<lparr>r_domains :=
       [(''d'', \<lparr>agents =
          [(''a'', \<lparr>status = JUndefined, hostname = JUndefined,
                    classes = [(''Foo'', JObj [(''memberFunctions'', strings [''-x'', ''get-number'', ''get-string'']),
                                               (''staticFunctions'', strings [''-y'', ''make-number''])])]\<rparr>)]\<rparr>)]\<rparr>"

text \<open>
  A value \<open>_packData\<close> sends as it is: \<open>_isFunction\<close> and \<open>_isEmitter\<close> both answer no.
\<close>

definition plain_value :: "jsval \<Rightarrow> bool" where
  "plain_value v = (\<not> isFunction v \<and> isEmitter v = Inr False)"

text \<open>
  What can happen to a pending request with correlation id \<open>ident\<close> and timer \<open>t\<close>: a
  message with that id arrives and the message handler emits it, or the timer elapses.
  A run is a sequence of such events; it ends where a listener throws.
\<close>

datatype event = Reply jsval | Timeout





text \<open>
  The state \<open>s'\<close> differs from \<open>s\<close> at most in the counter, the calls into user code and
  the listeners under tunnel ids.
\<close>

definition same_but_tunnels :: "remote \<Rightarrow> remote \<Rightarrow> bool" where
  "same_but_tunnels s s' =
     (timers s' = timers s \<and> next_timer s' = next_timer s \<and> promises s' = promises s \<and>
      next_promise s' = next_promise s \<and> published s' = published s \<and>
      r_instance s' = r_instance s \<and> r_timeout s' = r_timeout s \<and>
      (\<forall>k. take 5 k \<noteq> ''__f__'' \<longrightarrow> r_eventEmitter s' k = r_eventEmitter s k))"


text \<open>The state of the promise \<open>p\<close> after a run of the message handler.\<close>

definition outcome :: "exn + remote \<Rightarrow> nat \<Rightarrow> exn + pstate" where
  "outcome r p = (case r of Inl e \<Rightarrow> Inl e | Inr s \<Rightarrow> Inr (promise_state s p))"

section \<open>Properties\<close>

subsection \<open>Auxiliary facts\<close>

lemma indexOf_ge: "- 1 \<le> indexOf s c"
  by (induction s) (auto simp: Let_def)

lemma indexOf_takeWhile:
  "indexOf m c = (if c \<in> set m then int (length (takeWhile (\<lambda>x. x \<noteq> c) m)) else - 1)"
  by (induction m) (auto simp: Let_def)

lemma string_of_nat_digits [simp]:
  "string_of_nat 0 = ''0''" "string_of_nat 1 = ''1''" "string_of_nat 2 = ''2''"
  "string_of_nat 3 = ''3''" "string_of_nat 4 = ''4''" "string_of_nat 5 = ''5''"
  "string_of_nat 6 = ''6''" "string_of_nat 7 = ''7''" "string_of_nat 8 = ''8''"
  "string_of_nat 9 = ''9''"
  by (simp_all add: string_of_nat.simps digit_char_def)

lemma split_length: "length (split t c) = Suc (length (filter (\<lambda>x. x = c) t))"
  by (induction t) (auto split: list.splits)

lemma split_info:
  "split ''d/a/Foo/__static__/__info__'' CHR ''/'' = [''d'', ''a'', ''Foo'', ''__static__'', ''__info__'']"
  by simp

subsection \<open>Wildcards\<close>

text \<open>
  \<open>create\<close> refuses a wildcard agent or domain, and \<open>callStatic\<close> a wildcard domain, before
  anything is published: the state is the one they were called in.
\<close>

lemma create_wildcard:
  "default_to (r_agent s) agent_arg = ''*'' \<or> default_to (r_domain s) domain_arg = ''*'' \<Longrightarrow>
   \<exists>msg. create s className inst args agent_arg domain_arg = (Inl (Error msg), s)"
  by (auto simp: create_def Let_def)

lemma callStatic_wildcard_domain:
  "default_to (r_domain s) domain_arg = ''*'' \<Longrightarrow>
   callStatic s className functionName args agent_arg domain_arg =
     (Inl (Error ''You must specify a domain''), s)"
  by (simp add: callStatic_def Let_def)

text \<open>
  C4. The claim: every operation that needs a concrete domain or agent (\<open>create\<close>,
  \<open>getInstance\<close>, \<open>callStatic\<close>) raises a configuration error on the wildcard \<open>*\<close>,
  before any message is published. The code of \<open>getInstance\<close> has no such check, and
  \<open>callStatic\<close> checks the domain only: on a Remote built with the default options,
  \<open>getInstance\<close> returns a promise and has published its request on the topic
  \<open>*/*/Foo/__static__/__getNamed__\<close>; \<open>callStatic\<close> with a concrete domain and the
  default agent has published on \<open>d/*/Foo/__static__/f\<close>.
\<close>

theorem getInstance_callStatic_publish_on_wildcard:
  "fst (getInstance sample_remote ''Foo'' (JStr ''i1'') None None) = Inr 0
   \<and> map fst (published (snd (getInstance sample_remote ''Foo'' (JStr ''i1'') None None))) =
       [''*/*/Foo/__static__/__getNamed__'']
   \<and> fst (callStatic sample_remote ''Foo'' ''f'' [] None (Some ''d'')) = Inr 0
   \<and> map fst (published (snd (callStatic sample_remote ''Foo'' ''f'' [] None (Some ''d'')))) =
       [''d/*/Foo/__static__/f'']"
  by (simp add: getInstance_def callStatic_def sample_remote_def VrpcRemote_def default_to_def
      next_id_def getProxy_def mqttPublish_def new_promise_def setTimeout_def once_def Let_def
      packData_def handleAgentAnswer_def MAX_SAFE_INTEGER_def increment_def sample_random_def)

subsection \<open>Class information\<close>

text \<open>A payload that does hold \<open>className\<close> gives a \<open>class\<close> event that carries it.\<close>

lemma class_event_className:
  "events_of (on_message sample_remote ''d/a/Foo/__static__/__info__''
     (Json (JObj [(''className'', JStr ''Foo''), (''instances'', JArr [] []),
                  (''memberFunctions'', JArr [JStr ''bar''] []),
                  (''staticFunctions'', JArr [JStr ''baz''] [])]))) =
   Inr [(''class'', JObj [(''domain'', JStr ''d''), (''agent'', JStr ''a''),
                          (''className'', JStr ''Foo''), (''instances'', JArr [] []),
                          (''memberFunctions'', JArr [JStr ''bar''] []),
                          (''staticFunctions'', JArr [JStr ''baz''] [])])]"
  by (simp add: on_message_def split_info token_def events_of_def sample_remote_def
      VrpcRemote_def Let_def createIfNotExist_def update_agent_def default_to_def)

text \<open>
  C3. The claim: the class information the Agent publishes on
  \<open>{domain}/{agent}/{class}/__static__/__info__\<close> is an object with the keys
  \<open>className\<close>, \<open>instances\<close>, \<open>memberFunctions\<close> and \<open>staticFunctions\<close>, and the Remote's
  \<open>class\<close> event carries the \<open>className\<close> of that payload. The object \<open>_handleConnect\<close>
  builds has the key \<open>class\<close> where the Remote reads \<open>className\<close>: for every adapter and
  class its keys are \<open>class\<close>, \<open>instances\<close>, \<open>memberFunctions\<close>, \<open>staticFunctions\<close>;
  for the sample adapter the Agent publishes that object on \<open>d/a/Foo/__static__/__info__\<close>,
  and the Remote that receives it emits a \<open>class\<close> event whose \<open>className\<close> is undefined.
\<close>

theorem class_info_lacks_className:
  "own_keys (class_info ad klass) = Inr [''class'', ''instances'', ''memberFunctions'', ''staticFunctions'']
   \<and> map pub_text (a_published (handleConnect sample_adapter (VrpcAgent ''d'' ''a''))) =
       [Json (JObj [(''class'', JStr ''Foo''), (''instances'', JArr [] []),
                    (''memberFunctions'', JArr [JStr ''bar''] []),
                    (''staticFunctions'', JArr [JStr ''baz''] [])])]
   \<and> map pub_topic (a_published (handleConnect sample_adapter (VrpcAgent ''d'' ''a''))) =
       [JStr ''d/a/Foo/__static__/__info__'']
   \<and> events_of (on_message sample_remote ''d/a/Foo/__static__/__info__''
        (Json (JObj [(''class'', JStr ''Foo''), (''instances'', JArr [] []),
                     (''memberFunctions'', JArr [JStr ''bar''] []),
                     (''staticFunctions'', JArr [JStr ''baz''] [])]))) =
       Inr [(''class'', JObj [(''domain'', JStr ''d''), (''agent'', JStr ''a''),
                              (''className'', JUndefined), (''instances'', JArr [] []),
                              (''memberFunctions'', JArr [JStr ''bar''] []),
                              (''staticFunctions'', JArr [JStr ''baz''] [])])]"
  apply (intro conjI)
     apply (simp add: class_info_def)
    apply (simp add: handleConnect_def generateTopics_def log_line_def class_info_def
      sample_adapter_def VrpcAgent_def JSON_stringify_def strings_def Let_def)
   apply (simp add: handleConnect_def generateTopics_def log_line_def class_info_def
      sample_adapter_def VrpcAgent_def JSON_stringify_def strings_def Let_def)
  apply (simp add: on_message_def split_info token_def events_of_def sample_remote_def
      VrpcRemote_def Let_def createIfNotExist_def update_agent_def default_to_def)
  done

subsection \<open>Signature stripping\<close>

lemma stripSignature_char:
  "stripSignature m =
     (if m \<noteq> [] \<and> hd m \<noteq> CHR ''-'' \<and> CHR ''-'' \<in> set m then takeWhile (\<lambda>c. c \<noteq> CHR ''-'') m else m)"
proof (cases m)
  case Nil
  then show ?thesis by (simp add: stripSignature_def)
next
  case (Cons x xs)
  show ?thesis
  proof (cases "x = CHR ''-''")
    case True
    with Cons show ?thesis by (simp add: stripSignature_def)
  next
    case False
    have "nat (1 + int k) = Suc k" for k by simp
    with False Cons show ?thesis
      by (auto simp: stripSignature_def indexOf_takeWhile Let_def takeWhile_eq_take [symmetric])
  qed
qed

lemma stripSignature_dash: "stripSignature (CHR ''-'' # rest) = CHR ''-'' # rest"
  by (simp add: stripSignature_def)

lemma stripSignature_empty: "(stripSignature m = []) = (m = [])"
  by (cases m) (auto simp: stripSignature_char)

lemma fold_insert_set:
  "set (fold (\<lambda>x acc. if x \<in> set acc then acc else acc @ [x]) xs acc) = set acc \<union> set xs"
  by (induction xs arbitrary: acc) auto


lemma set_new_Set: "set (new_Set xs) = set xs"
  by (simp add: new_Set_def fold_insert_set)


lemma map_names_strings: "map_names f (strings xs) = Inr (map f xs)"
  by (simp add: strings_def list_all_iff comp_def)

lemma class_entry_random_ix [simp]: "class_entry (s\<lparr>random_ix := n\<rparr>) = class_entry s"
  by (simp add: fun_eq_iff class_entry_def)

lemma createProxy_methods:
  assumes "class_entry s domain agent className = Inr (JObj ps)"
    and "lookup ps ''memberFunctions'' = strings mfs"
    and "get_prop data ''r'' = Inr r"
  shows "createProxy s domain agent className data =
           (Inr \<lparr>targetId = r, proxyId = randomBytes s (random_ix s),
                 targetTopic = domain @ ''/'' @ agent @ ''/'' @ className @ ''/'' @ js_to_string r,
                 methods = new_Set (map stripSignature mfs)\<rparr>,
            s\<lparr>random_ix := Suc (random_ix s)\<rparr>)"
proof -
  have "(\<lambda>name. let pos = indexOf name CHR ''-'' in if pos > 0 then take (nat pos) name else name)
          = stripSignature"
    by (simp add: fun_eq_iff stripSignature_def)
  with assms show ?thesis
    by (simp add: createProxy_def Let_def map_names_strings)
qed

lemma available_functions_strings:
  assumes "class_entry s (default_to (r_domain s) domain_arg) (default_to (r_agent s) agent_arg) className
             = Inr (JObj ps)"
    and "lookup ps field = strings fs"
    and "default_to (r_agent s) agent_arg \<noteq> ''*''"
    and "default_to (r_domain s) domain_arg \<noteq> ''*''"
  shows "available_functions field s className agent_arg domain_arg = Inr (map stripSignature fs)"
  using assms
  by (auto simp: available_functions_def class_entry_def Let_def map_names_strings
      split: option.splits)

text \<open>
  C9. Signature stripping truncates a name at its first \<open>-\<close> only when that \<open>-\<close> stands
  at a position greater than zero. A name that begins with \<open>-\<close> comes back whole; the
  result is empty only for the empty name; a name is cut (before its first \<open>-\<close>) exactly
  when it has a \<open>-\<close> and does not begin with one. So wherever the class information of
  a class holds, among its member (static) functions, a name that begins with \<open>-\<close>,
  \<open>getAvailableMemberFunctions\<close> (\<open>getAvailableStaticFunctions\<close>) returns that name
  unchanged at its place, and the method set of a proxy created for the class has it.
\<close>

theorem stripSignature_leading_dash:
  "stripSignature (CHR ''-'' # rest) = CHR ''-'' # rest
   \<and> (stripSignature m = []) = (m = [])
   \<and> stripSignature m =
       (if m \<noteq> [] \<and> hd m \<noteq> CHR ''-'' \<and> CHR ''-'' \<in> set m
        then takeWhile (\<lambda>c. c \<noteq> CHR ''-'') m else m)
   \<and> (class_entry s (default_to (r_domain s) domain_arg) (default_to (r_agent s) agent_arg) className
          = Inr (JObj ps) \<and>
       lookup ps ''memberFunctions'' = strings (mfs @ (CHR ''-'' # f) # mfs') \<and>
       lookup ps ''staticFunctions'' = strings (sfs @ (CHR ''-'' # g) # sfs') \<and>
       default_to (r_agent s) agent_arg \<noteq> ''*'' \<and>
       default_to (r_domain s) domain_arg \<noteq> ''*'' \<and>
       get_prop data ''r'' = Inr r \<longrightarrow>
         getAvailableMemberFunctions s className agent_arg domain_arg =
           Inr (map stripSignature mfs @ (CHR ''-'' # f) # map stripSignature mfs') \<and>
         getAvailableStaticFunctions s className agent_arg domain_arg =
           Inr (map stripSignature sfs @ (CHR ''-'' # g) # map stripSignature sfs') \<and>
         proxy_methods (createProxy s (default_to (r_domain s) domain_arg)
                          (default_to (r_agent s) agent_arg) className data) =
           Inr (new_Set (map stripSignature mfs @ (CHR ''-'' # f) # map stripSignature mfs')) \<and>
         (CHR ''-'' # f) \<in> set (new_Set (map stripSignature mfs @ (CHR ''-'' # f) # map stripSignature mfs')))"
  apply (intro conjI impI)
        apply (rule stripSignature_dash)
       apply (rule stripSignature_empty)
      apply (rule stripSignature_char)
     apply (simp add: getAvailableMemberFunctions_def available_functions_strings stripSignature_dash)
    apply (simp add: getAvailableStaticFunctions_def available_functions_strings stripSignature_dash)
   apply (simp add: proxy_methods_def createProxy_methods stripSignature_dash)
  apply (simp add: set_new_Set)
  done

text \<open>The theorem at the sample Remote that holds the class information of \<open>Foo\<close>.\<close>

theorem stripSignature_leading_dash_witness:
  "class_entry dashed_remote (default_to (r_domain dashed_remote) (Some ''d''))
      (default_to (r_agent dashed_remote) (Some ''a'')) ''Foo''
     = Inr (JObj [(''memberFunctions'', strings [''-x'', ''get-number'', ''get-string'']),
                  (''staticFunctions'', strings [''-y'', ''make-number''])])
   \<and> lookup [(''memberFunctions'', strings [''-x'', ''get-number'', ''get-string'']),
              (''staticFunctions'', strings [''-y'', ''make-number''])] ''memberFunctions''
       = strings ([] @ (CHR ''-'' # ''x'') # [''get-number'', ''get-string''])
   \<and> lookup [(''memberFunctions'', strings [''-x'', ''get-number'', ''get-string'']),
              (''staticFunctions'', strings [''-y'', ''make-number''])] ''staticFunctions''
       = strings ([] @ (CHR ''-'' # ''y'') # [''make-number''])
   \<and> default_to (r_agent dashed_remote) (Some ''a'') \<noteq> ''*''
   \<and> default_to (r_domain dashed_remote) (Some ''d'') \<noteq> ''*''
   \<and> get_prop (JObj [(''r'', JStr ''i1'')]) ''r'' = Inr (JStr ''i1'')
   \<and> getAvailableMemberFunctions dashed_remote ''Foo'' (Some ''a'') (Some ''d'') = Inr [''-x'', ''get'', ''get'']
   \<and> getAvailableStaticFunctions dashed_remote ''Foo'' (Some ''a'') (Some ''d'') = Inr [''-y'', ''make'']
   \<and> proxy_methods (createProxy dashed_remote ''d'' ''a'' ''Foo'' (JObj [(''r'', JStr ''i1'')])) = Inr [''-x'', ''get'']"
proof -
  have h1: "class_entry dashed_remote (default_to (r_domain dashed_remote) (Some ''d''))
      (default_to (r_agent dashed_remote) (Some ''a'')) ''Foo''
     = Inr (JObj [(''memberFunctions'', strings [''-x'', ''get-number'', ''get-string'']),
                  (''staticFunctions'', strings [''-y'', ''make-number''])])"
    by (simp add: class_entry_def dashed_remote_def default_to_def)
  have h2: "default_to (r_agent dashed_remote) (Some ''a'') \<noteq> ''*''"
    "default_to (r_domain dashed_remote) (Some ''d'') \<noteq> ''*''"
    by (simp_all add: default_to_def)
  have s1: "stripSignature ''get-number'' = ''get''" "stripSignature ''get-string'' = ''get''"
    "stripSignature ''make-number'' = ''make''"
    by (simp_all add: stripSignature_def)
  from stripSignature_leading_dash [where rest = "''x''" and m = "[]" and s = dashed_remote and domain_arg = "Some ''d''"
      and agent_arg = "Some ''a''" and className = "''Foo''"
      and ps = "[(''memberFunctions'', strings [''-x'', ''get-number'', ''get-string'']),
                 (''staticFunctions'', strings [''-y'', ''make-number''])]"
      and mfs = "[]" and f = "''x''" and mfs' = "[''get-number'', ''get-string'']"
      and sfs = "[]" and g = "''y''" and sfs' = "[''make-number'']"
      and data = "JObj [(''r'', JStr ''i1'')]" and r = "JStr ''i1''"] h1 h2
  show ?thesis
    by (simp add: s1 new_Set_def default_to_def)
qed


subsection \<open>The method set of a proxy\<close>




subsection \<open>Protocol violations on the Agent\<close>

lemma handleMessage_total: "fst (handleMessage ad s topic data) = Inr ()"
  by (simp add: handleMessage_def split: prod.splits sum.splits)

lemma handleMessage_arity:
  assumes "length (split topic CHR ''/'') \<noteq> 5"
  shows "a_called (snd (handleMessage ad s topic data)) = a_called s"
    and "a_published (snd (handleMessage ad s topic data)) = a_published s"
    and "a_subscribed (snd (handleMessage ad s topic data)) = a_subscribed s"
  using assms
  by (cases data; simp add: handleMessage_def handleMessage_try_def log_line_def Let_def)+

lemma handleMessage_malformed:
  assumes "JSON_parse data = Inl e"
  shows "snd (handleMessage ad s topic data) =
           s\<lparr>a_log := a_log s @ [LogError e ''Problem while handling incoming message: '']\<rparr>"
  using assms by (simp add: handleMessage_def handleMessage_try_def log_line_def)


text \<open>
  C8. \<open>_handleMessage\<close> never lets an exception out. The topic has as many segments as it
  has slashes, plus one; when they are not five, the Adapter is not called, nothing is
  published and nothing is subscribed, and for a payload that parses the only effect
  is the debug line and the warning in the log. A payload that is not JSON leaves one
  error line in the log and nothing else.
\<close>

theorem handleMessage_drops_violations:
  "fst (handleMessage ad s topic data) = Inr ()
   \<and> length (split topic CHR ''/'') = Suc (length (filter (\<lambda>c. c = CHR ''/'') topic))
   \<and> (length (split topic CHR ''/'') \<noteq> 5 \<longrightarrow>
        a_called (snd (handleMessage ad s topic data)) = a_called s \<and>
        a_published (snd (handleMessage ad s topic data)) = a_published s \<and>
        a_subscribed (snd (handleMessage ad s topic data)) = a_subscribed s)
   \<and> (length (split topic CHR ''/'') \<noteq> 5 \<and> JSON_parse data = Inr json \<longrightarrow>
        snd (handleMessage ad s topic data) =
          s\<lparr>a_log := a_log s @
               [LogDebug (''Message arrived with topic: '' @ topic @ '' and payload:''),
                LogWarn (''Ignoring message with invalid topic: '' @ topic)]\<rparr>)
   \<and> (JSON_parse data = Inl e \<longrightarrow>
        snd (handleMessage ad s topic data) =
          s\<lparr>a_log := a_log s @ [LogError e ''Problem while handling incoming message: '']\<rparr>)"
  apply (intro conjI impI)
        apply (rule handleMessage_total)
       apply (rule split_length)
      apply (simp add: handleMessage_arity)
     apply (simp add: handleMessage_arity)
    apply (simp add: handleMessage_arity)
   apply (simp add: handleMessage_def handleMessage_try_def log_line_def Let_def)
  apply (simp add: handleMessage_malformed)
  done

text \<open>The theorem on a topic of four segments and on a payload that does not parse.\<close>

theorem handleMessage_drops_violations_witness:
  "length (split ''d/a/Foo/bar'' CHR ''/'') \<noteq> 5
   \<and> JSON_parse (Json (JObj [])) = Inr (JObj [])
   \<and> JSON_parse Malformed = Inl SyntaxError
   \<and> handleMessage sample_adapter (VrpcAgent ''d'' ''a'') ''d/a/Foo/bar'' (Json (JObj [])) =
       (Inr (), (VrpcAgent ''d'' ''a'')\<lparr>a_log :=
          [LogDebug ''Message arrived with topic: d/a/Foo/bar and payload:'',
           LogWarn ''Ignoring message with invalid topic: d/a/Foo/bar'']\<rparr>)
   \<and> handleMessage sample_adapter (VrpcAgent ''d'' ''a'') ''d/a/Foo/__static__/baz'' Malformed =
       (Inr (), (VrpcAgent ''d'' ''a'')\<lparr>a_log :=
          [LogError SyntaxError ''Problem while handling incoming message: '']\<rparr>)"
proof -
  have h1: "length (split ''d/a/Foo/bar'' CHR ''/'') \<noteq> 5" by simp
  have h2: "JSON_parse (Json (JObj [])) = Inr (JObj [])" by simp
  have h3: "JSON_parse Malformed = Inl SyntaxError" by simp
  have l: "a_log (VrpcAgent ''d'' ''a'') = []" by (simp add: VrpcAgent_def)
  from handleMessage_drops_violations [of sample_adapter "VrpcAgent ''d'' ''a''" "''d/a/Foo/bar''" "Json (JObj [])" "JObj []" SyntaxError]
    h1 h2
  have a: "handleMessage sample_adapter (VrpcAgent ''d'' ''a'') ''d/a/Foo/bar'' (Json (JObj [])) =
       (Inr (), (VrpcAgent ''d'' ''a'')\<lparr>a_log :=
          [LogDebug ''Message arrived with topic: d/a/Foo/bar and payload:'',
           LogWarn ''Ignoring message with invalid topic: d/a/Foo/bar'']\<rparr>)"
    by (simp add: prod_eq_iff l)
  from handleMessage_drops_violations [of sample_adapter "VrpcAgent ''d'' ''a''" "''d/a/Foo/__static__/baz''" Malformed "JObj []" SyntaxError]
    h3
  have b: "handleMessage sample_adapter (VrpcAgent ''d'' ''a'') ''d/a/Foo/__static__/baz'' Malformed =
       (Inr (), (VrpcAgent ''d'' ''a'')\<lparr>a_log :=
          [LogError SyntaxError ''Problem while handling incoming message: '']\<rparr>)"
    by (simp add: prod_eq_iff l)
  from h1 h2 h3 a b show ?thesis by simp
qed


subsection \<open>The order of callback arguments\<close>

lemma keys_1_9_sorted: "sorted (map (\<lambda>i. ''_'' @ string_of_nat i) [1..<10])"
  by code_simp

lemma keys_1_9_distinct: "distinct (map (\<lambda>i. ''_'' @ string_of_nat i) [1..<10])"
  by code_simp

lemma keys_prefix:
  assumes "N \<le> 9"
  shows "map (\<lambda>i. ''_'' @ string_of_nat i) [1..<Suc N] = take N (map (\<lambda>i. ''_'' @ string_of_nat i) [1..<10])"
  using assms by (simp add: take_map)

lemma keys_sorted_distinct:
  assumes "N \<le> 9"
  shows "sorted (map (\<lambda>i. ''_'' @ string_of_nat i) [1..<Suc N])"
    and "distinct (map (\<lambda>i. ''_'' @ string_of_nat i) [1..<Suc N])"
  using assms keys_1_9_sorted keys_1_9_distinct
  by (simp_all only: keys_prefix sorted_wrt_take distinct_take)

lemma underscore_keys_sorted:
  assumes "N \<le> 9"
    and "distinct ks"
    and "\<forall>k. (k \<in> set ks \<and> take 1 k = ''_'') = (k \<in> set (map (\<lambda>i. ''_'' @ string_of_nat i) [1..<Suc N]))"
  shows "filter (\<lambda>v. take 1 v = ''_'') (sort ks) = map (\<lambda>i. ''_'' @ string_of_nat i) [1..<Suc N]"
proof (rule sorted_distinct_set_unique)
  show "sorted (filter (\<lambda>v. take 1 v = ''_'') (sort ks))"
    by (simp add: sorted_wrt_filter)
  show "distinct (filter (\<lambda>v. take 1 v = ''_'') (sort ks))"
    using assms(2) by simp
  show "sorted (map (\<lambda>i. ''_'' @ string_of_nat i) [1..<Suc N])"
    using assms(1) by (rule keys_sorted_distinct)
  show "distinct (map (\<lambda>i. ''_'' @ string_of_nat i) [1..<Suc N])"
    using assms(1) by (rule keys_sorted_distinct)
  show "set (filter (\<lambda>v. take 1 v = ''_'') (sort ks)) = set (map (\<lambda>i. ''_'' @ string_of_nat i) [1..<Suc N])"
    using assms(3) by auto
qed

lemma callback_args_positional:
  assumes "N \<le> 9"
    and "distinct (map fst ps)"
    and "\<forall>k. (k \<in> set (map fst ps) \<and> take 1 k = ''_'') = (k \<in> set (map (\<lambda>i. ''_'' @ string_of_nat i) [1..<Suc N]))"
  shows "callback_args (JObj ps) = Inr (map (\<lambda>i. lookup ps (''_'' @ string_of_nat i)) [1..<Suc N])"
  using underscore_keys_sorted [OF assms]
  by (simp add: callback_args_def comp_def)

lemma key_inj:
  assumes "1 \<le> a" "a \<le> 9" "1 \<le> b" "b \<le> 9"
    and "''_'' @ string_of_nat a = ''_'' @ string_of_nat b"
  shows "a = b"
proof -
  have "inj_on (\<lambda>i. ''_'' @ string_of_nat i) (set [1..<10])"
    using keys_1_9_distinct by (simp only: distinct_map)
  moreover have "a \<in> set [1..<10]" "b \<in> set [1..<10]"
    using assms(1-4) by auto
  ultimately show ?thesis
    using assms(5) by (auto dest: inj_onD)
qed

lemma update_fresh: "k \<notin> fst ` set al \<Longrightarrow> AList.update k v al = al @ [(k, v)]"
  by (induction al) auto

lemma assign_args_fresh:
  assumes "i + length rest \<le> 9"
    and "\<forall>j. i < j \<and> j \<le> i + length rest \<longrightarrow> ''_'' @ string_of_nat j \<notin> fst ` set data"
  shows "assign_args 1 i rest data =
           data @ zip (map (\<lambda>j. ''_'' @ string_of_nat j) [Suc i..<Suc (i + length rest)]) rest"
  using assms
proof (induction rest arbitrary: i data)
  case Nil
  then show ?case by simp
next
  case (Cons v vs)
  have fresh: "''_'' @ string_of_nat (Suc i) \<notin> fst ` set data"
    using Cons.prems(2) by simp
  have len: "Suc i + length vs \<le> 9"
    using Cons.prems(1) by simp
  have later: "\<forall>j. Suc i < j \<and> j \<le> Suc i + length vs \<longrightarrow>
      ''_'' @ string_of_nat j \<notin> fst ` set (data @ [(''_'' @ string_of_nat (Suc i), v)])"
  proof (intro allI impI)
    fix j assume j: "Suc i < j \<and> j \<le> Suc i + length vs"
    then have "''_'' @ string_of_nat j \<notin> fst ` set data"
      using Cons.prems(2) by simp
    moreover have "''_'' @ string_of_nat j \<noteq> ''_'' @ string_of_nat (Suc i)"
    proof
      assume "''_'' @ string_of_nat j = ''_'' @ string_of_nat (Suc i)"
      then have "j = Suc i"
        using j len by (intro key_inj) auto
      with j show False by simp
    qed
    ultimately show "''_'' @ string_of_nat j \<notin> fst ` set (data @ [(''_'' @ string_of_nat (Suc i), v)])"
      by auto
  qed
  have "assign_args 1 i (v # vs) data =
          assign_args 1 (Suc i) vs (data @ [(''_'' @ string_of_nat (Suc i), v)])"
    using fresh by (simp add: update_fresh)
  also have "\<dots> = (data @ [(''_'' @ string_of_nat (Suc i), v)]) @
      zip (map (\<lambda>j. ''_'' @ string_of_nat j) [Suc (Suc i)..<Suc (Suc i + length vs)]) vs"
    using len later by (rule Cons.IH)
  also have "\<dots> = data @ zip (map (\<lambda>j. ''_'' @ string_of_nat j) [Suc i..<Suc (i + length (v # vs))]) (v # vs)"
    by (simp add: upt_conv_Cons del: upt_Suc)
  finally show ?case .
qed

lemma packArgs_plain:
  "list_all plain_value rest \<Longrightarrow>
   packArgs pid functionName args index rest data s = (Inr (assign_args 1 index rest data), s)"
  by (induction rest arbitrary: index data) (simp_all add: plain_value_def)

lemma packData_plain:
  assumes "length args \<le> 9" and "list_all plain_value args"
  shows "packData s pid functionName args =
           (Inr (zip (map (\<lambda>j. ''_'' @ string_of_nat j) [1..<Suc (length args)]) args), s)"
proof -
  have "assign_args 1 0 args [] =
          [] @ zip (map (\<lambda>j. ''_'' @ string_of_nat j) [Suc 0..<Suc (0 + length args)]) args"
    using assms(1) by (intro assign_args_fresh) auto
  with assms(2) show ?thesis
    by (simp add: packData_def packArgs_plain del: upt_Suc)
qed

lemma lookup_map_of: "lookup ps k = (case map_of ps k of None \<Rightarrow> JUndefined | Some v \<Rightarrow> v)"
  by (induction ps) auto

lemma lookup_zip:
  assumes "distinct ks" and "length ks = length vs"
  shows "map (lookup (zip ks vs)) ks = vs"
proof (rule nth_equalityI)
  show "length (map (lookup (zip ks vs)) ks) = length vs"
    using assms(2) by simp
next
  fix i assume "i < length (map (lookup (zip ks vs)) ks)"
  then have i: "i < length ks" by simp
  then have "map_of (zip ks vs) (ks ! i) = Some (vs ! i)"
    using assms by (intro map_of_zip_nth) auto
  with i show "map (lookup (zip ks vs)) ks ! i = vs ! i"
    by (simp add: lookup_map_of)
qed

lemma callback_args_packed:
  assumes "length args \<le> 9"
  shows "callback_args (JObj (zip (map (\<lambda>j. ''_'' @ string_of_nat j) [1..<Suc (length args)]) args)) = Inr args"
proof -
  let ?ks = "map (\<lambda>j. ''_'' @ string_of_nat j) [1..<Suc (length args)]"
  have d: "distinct ?ks"
    using assms by (rule keys_sorted_distinct)
  have l: "length ?ks = length args" by (simp del: upt_Suc)
  have fst: "map fst (zip ?ks args) = ?ks"
    using l by (simp only: map_fst_zip)
  have "callback_args (JObj (zip ?ks args)) =
          Inr (map (\<lambda>i. lookup (zip ?ks args) (''_'' @ string_of_nat i)) [1..<Suc (length args)])"
  proof (rule callback_args_positional [OF assms])
    show "distinct (map fst (zip ?ks args))"
      using d fst by simp
    show "\<forall>k. (k \<in> set (map fst (zip ?ks args)) \<and> take 1 k = ''_'') =
               (k \<in> set (map (\<lambda>i. ''_'' @ string_of_nat i) [1..<Suc (length args)]))"
      unfolding fst by auto
  qed
  also have "map (\<lambda>i. lookup (zip ?ks args) (''_'' @ string_of_nat i)) [1..<Suc (length args)]
               = map (lookup (zip ?ks args)) ?ks"
    by (simp add: comp_def del: upt_Suc)
  also have "\<dots> = args"
    using d l by (rule lookup_zip)
  finally show ?thesis .
qed

text \<open>With ten arguments the sorted keys put the tenth behind the first.\<close>

lemma callback_args_ten:
  "callback_args (JObj (zip (map (\<lambda>j. ''_'' @ string_of_nat j) [1..<11])
                            (map JNum [1, 2, 3, 4, 5, 6, 7, 8, 9, 10]))) =
     Inr (map JNum [1, 10, 2, 3, 4, 5, 6, 7, 8, 9])"
  by code_simp

text \<open>
  C6. For a data object whose keys that begin with an underscore are exactly
  \<open>_1\<close> .. \<open>_N\<close>, with \<open>N\<close> at most 9 (in any insertion order, beside any other keys), the
  decoding of a tunneled delivery (the keys sorted, those that begin with an underscore
  kept, their values read) gives the values of \<open>_1\<close>, ..., \<open>_N\<close> in this order. And
  packing at most 9 plain arguments with \<open>_packData\<close>, then decoding the data object,
  gives the argument list back.
\<close>

theorem callback_args_order_preserved:
  "(N \<le> 9 \<and> distinct (map fst ps) \<and>
    (\<forall>k. (k \<in> set (map fst ps) \<and> take 1 k = ''_'') =
          (k \<in> set (map (\<lambda>i. ''_'' @ string_of_nat i) [1..<Suc N]))) \<longrightarrow>
      callback_args (JObj ps) = Inr (map (\<lambda>i. lookup ps (''_'' @ string_of_nat i)) [1..<Suc N]))
   \<and> (length args \<le> 9 \<and> list_all plain_value args \<longrightarrow>
        (\<exists>data. packData s pid functionName args = (Inr data, s) \<and>
                callback_args (JObj data) = Inr args))"
proof (intro conjI impI)
  assume "N \<le> 9 \<and> distinct (map fst ps) \<and>
    (\<forall>k. (k \<in> set (map fst ps) \<and> take 1 k = ''_'') =
          (k \<in> set (map (\<lambda>i. ''_'' @ string_of_nat i) [1..<Suc N])))"
  then show "callback_args (JObj ps) = Inr (map (\<lambda>i. lookup ps (''_'' @ string_of_nat i)) [1..<Suc N])"
    by (intro callback_args_positional) blast+
next
  assume a: "length args \<le> 9 \<and> list_all plain_value args"
  then have "packData s pid functionName args =
           (Inr (zip (map (\<lambda>j. ''_'' @ string_of_nat j) [1..<Suc (length args)]) args), s)"
    by (intro packData_plain) blast+
  moreover from a have "callback_args (JObj (zip (map (\<lambda>j. ''_'' @ string_of_nat j) [1..<Suc (length args)]) args)) = Inr args"
    by (intro callback_args_packed) blast
  ultimately show "\<exists>data. packData s pid functionName args = (Inr data, s) \<and>
                callback_args (JObj data) = Inr args"
    by blast
qed


text \<open>The theorem on three arguments: a data object with its keys out of order, and a packed list.\<close>

theorem callback_args_order_preserved_witness:
  "(3::nat) \<le> 9
   \<and> distinct (map fst [(''r'', JNull), (''_2'', JStr ''x''), (''_1'', JNum 42), (''_3'', JBool True)])
   \<and> length [JNum 42, JStr ''x'', JBool True] \<le> 9
   \<and> list_all plain_value [JNum 42, JStr ''x'', JBool True]
   \<and> callback_args (JObj [(''r'', JNull), (''_2'', JStr ''x''), (''_1'', JNum 42), (''_3'', JBool True)])
       = Inr [JNum 42, JStr ''x'', JBool True]
   \<and> (\<exists>data. packData sample_remote ''c0de'' ''f'' [JNum 42, JStr ''x'', JBool True] = (Inr data, sample_remote)
         \<and> callback_args (JObj data) = Inr [JNum 42, JStr ''x'', JBool True])"
proof -
  have h1: "(3::nat) \<le> 9" by simp
  have h2: "distinct (map fst [(''r'', JNull), (''_2'', JStr ''x''), (''_1'', JNum 42), (''_3'', JBool True)])"
    by simp
  have h3: "\<forall>k. (k \<in> set (map fst [(''r'', JNull), (''_2'', JStr ''x''), (''_1'', JNum 42), (''_3'', JBool True)])
                 \<and> take 1 k = ''_'') =
               (k \<in> set (map (\<lambda>i. ''_'' @ string_of_nat i) [1..<Suc 3]))"
  proof -
    have "map (\<lambda>i. ''_'' @ string_of_nat i) [1..<Suc 3] = [''_1'', ''_2'', ''_3'']"
      by code_simp
    then show ?thesis by auto
  qed
  have h4: "length [JNum 42, JStr ''x'', JBool True] \<le> 9" by simp
  have h5: "list_all plain_value [JNum 42, JStr ''x'', JBool True]"
    by (simp add: plain_value_def isEmitter_def)
  have e: "map (\<lambda>i. lookup [(''r'', JNull), (''_2'', JStr ''x''), (''_1'', JNum 42), (''_3'', JBool True)]
                      (''_'' @ string_of_nat i)) [1..<Suc 3] = [JNum 42, JStr ''x'', JBool True]"
    by code_simp
  from callback_args_order_preserved [where N = 3 and ps = "[(''r'', JNull), (''_2'', JStr ''x''), (''_1'', JNum 42), (''_3'', JBool True)]"
      and args = "[JNum 42, JStr ''x'', JBool True]" and s = sample_remote and pid = "''c0de''"
      and functionName = "''f''"] h1 h2 h3 h4 h5 e
  show ?thesis by (simp del: upt_Suc)
qed


subsection \<open>Completion of a call\<close>

lemma emit_single_once:
  assumes "r_eventEmitter s ident = [Once l]"
  shows "emit s (JStr ident) data =
           deliver (s\<lparr>r_eventEmitter := (r_eventEmitter s)(ident := [])\<rparr>) l data"
  using assms by (simp add: emit_def removeListener_def split: sum.splits)

lemma handleAgentAnswer_state:
  "handleAgentAnswer s ident =
     (next_promise s,
      s\<lparr>promises := (promises s)(next_promise s := Pending),
        next_promise := Suc (next_promise s),
        timers := (timers s)(next_timer s \<mapsto>
           TimeoutCall ident (next_promise s)
             (''Function call timed out (> '' @ string_of_int (r_timeout s) @ '' ms)'')),
        next_timer := Suc (next_timer s),
        r_eventEmitter := (r_eventEmitter s)
           (ident := r_eventEmitter s ident @ [Once (AgentAnswer (next_promise s) (next_timer s))])\<rparr>)"
  by (simp add: handleAgentAnswer_def new_promise_def setTimeout_def once_def Let_def)

lemma answer_error:
  assumes "r_eventEmitter s ident = []"
    and "handleAgentAnswer s ident = (p, s1)"
    and "get_prop data ''e'' = Inr err" and "truthy err"
  shows "\<exists>s2. emit s1 (JStr ident) data = Inr s2 \<and>
              promise_state s2 p = Rejected (Error (js_to_string err))"
proof -
  have l: "r_eventEmitter s1 ident = [Once (AgentAnswer (next_promise s) (next_timer s))]"
    and p: "p = next_promise s"
    using assms(1,2) by (auto simp: handleAgentAnswer_state)
  show ?thesis
    using assms
    by (simp add: emit_single_once [OF l] p [symmetric])
       (auto simp: handleAgentAnswer_state clearTimeout_def reject_def promise_state_def)
qed

lemma answer_value:
  assumes "r_eventEmitter s ident = []"
    and "handleAgentAnswer s ident = (p, s1)"
    and "get_prop data ''e'' = Inr err" and "\<not> truthy err"
    and "get_prop data ''r'' = Inr ret" and "\<not> is_promise_token ret"
  shows "\<exists>s2. emit s1 (JStr ident) data = Inr s2 \<and> promise_state s2 p = Fulfilled (Value ret)"
proof -
  have l: "r_eventEmitter s1 ident = [Once (AgentAnswer (next_promise s) (next_timer s))]"
    and p: "p = next_promise s"
    using assms(1,2) by (auto simp: handleAgentAnswer_state)
  show ?thesis
    using assms
    by (simp add: emit_single_once [OF l] p [symmetric])
       (auto simp: handleAgentAnswer_state clearTimeout_def resolve_def promise_state_def)
qed

lemma answer_token:
  assumes "r_eventEmitter s ident = []"
    and "handleAgentAnswer s ident = (p, s1)"
    and "get_prop data ''e'' = Inr err" and "\<not> truthy err"
    and "get_prop data ''r'' = Inr (JStr tok)" and "take 5 tok = ''__p__''"
    and "r_eventEmitter s tok = []"
  shows "\<exists>s2. emit s1 (JStr ident) data = Inr s2 \<and> promise_state s2 p = Pending \<and>
           (\<forall>data2 err2. get_prop data2 ''e'' = Inr err2 \<and> truthy err2 \<longrightarrow>
              (\<exists>s3. emit s2 (JStr tok) data2 = Inr s3 \<and>
                    promise_state s3 p = Rejected (Error (js_to_string err2)))) \<and>
           (\<forall>data2 err2 r2. get_prop data2 ''e'' = Inr err2 \<and> \<not> truthy err2 \<and>
                            get_prop data2 ''r'' = Inr r2 \<longrightarrow>
              (\<exists>s3. emit s2 (JStr tok) data2 = Inr s3 \<and> promise_state s3 p = Fulfilled (Value r2)))"
proof -
  have l: "r_eventEmitter s1 ident = [Once (AgentAnswer (next_promise s) (next_timer s))]"
    and p: "p = next_promise s"
    using assms(1,2) by (auto simp: handleAgentAnswer_state)
  obtain s2 where s2: "emit s1 (JStr ident) data = Inr s2"
    and l2: "r_eventEmitter s2 tok = [Once (PromiseAnswer (Suc p))]"
    and p2: "promises s2 p = Following (Suc p)" "promises s2 (Suc p) = Pending"
    using assms
    by (simp add: emit_single_once [OF l] p [symmetric])
       (auto simp: handleAgentAnswer_state clearTimeout_def resolve_with_def new_promise_def
          once_def Let_def)
  have "promise_state s2 p = Pending"
    using p2 by (simp add: promise_state_def)
  moreover have "\<exists>s3. emit s2 (JStr tok) data2 = Inr s3 \<and>
                    promise_state s3 p = Rejected (Error (js_to_string err2))"
    if "get_prop data2 ''e'' = Inr err2" "truthy err2" for data2 err2
    using that p2
    by (simp add: emit_single_once [OF l2] reject_def promise_state_def)
  moreover have "\<exists>s3. emit s2 (JStr tok) data2 = Inr s3 \<and> promise_state s3 p = Fulfilled (Value r2)"
    if "get_prop data2 ''e'' = Inr err2" "\<not> truthy err2" "get_prop data2 ''r'' = Inr r2"
    for data2 err2 r2
    using that p2
    by (simp add: emit_single_once [OF l2] resolve_def promise_state_def)
  ultimately show ?thesis
    using s2 by blast
qed

lemma answer_timeout:
  assumes "handleAgentAnswer s ident = (p, s1)"
  shows "timers s1 (next_timer s) =
           Some (TimeoutCall ident p (''Function call timed out (> '' @ string_of_int (r_timeout s) @ '' ms)''))"
    and "promise_state (fire s1 (next_timer s)) p =
           Rejected (Error (''Function call timed out (> '' @ string_of_int (r_timeout s) @ '' ms)''))"
    and "r_eventEmitter (fire s1 (next_timer s)) ident = []"
    and "timers (fire s1 (next_timer s)) (next_timer s) = None"
  using assms
  by (auto simp: handleAgentAnswer_state fire_def removeAllListeners_def reject_def promise_state_def)

lemma sample_remote_fields:
  "r_eventEmitter sample_remote k = []" "next_promise sample_remote = 0"
  "next_timer sample_remote = 0" "r_timeout sample_remote = 5000"
  "r_instance sample_remote = ''ab12''" "r_invokeId sample_remote = 0"
  "timers sample_remote t = None" "promises sample_remote p = Pending"
  "r_agent sample_remote = ''*''" "r_domain sample_remote = ''*''"
  by (simp_all add: sample_remote_def VrpcRemote_def sample_random_def default_to_def)

lemma string_of_int_5000: "string_of_int 5000 = ''5000''"
  by (simp add: string_of_int_def string_of_nat.simps digit_char_def)



text \<open>
  C1, as stated: a reply whose \<open>data.e\<close> is set rejects the call. The completion tests
  \<open>if (data.e)\<close>: a reply that carries the empty string as \<open>e\<close> (an own property of
  \<open>data\<close>) resolves the call with its \<open>data.r\<close>.
\<close>

theorem agent_answer_empty_error_counterexample:
  "hasOwnProperty (JObj [(''e'', JStr ''''), (''r'', JNum 1)]) ''e'' = Inr True
   \<and> outcome (emit (snd (handleAgentAnswer sample_remote ''ab12-0'')) (JStr ''ab12-0'')
                 (JObj [(''e'', JStr ''''), (''r'', JNum 1)]))
              (fst (handleAgentAnswer sample_remote ''ab12-0''))
       = Inr (Fulfilled (Value (JNum 1)))"
  by (simp add: outcome_def handleAgentAnswer_state sample_remote_fields emit_def
      removeListener_def clearTimeout_def resolve_def promise_state_def)

text \<open>
  C1, amended. For a call registered by \<open>_handleAgentAnswer\<close> under an id that has no
  other listener: a reply whose \<open>data.e\<close> is truthy rejects the call with an error
  whose message is \<open>data.e\<close>; otherwise, if \<open>data.r\<close> is a string that begins with
  \<open>__p__\<close> (and no other listener stands under that token), the call stays pending, and
  a second message whose id is that token rejects it on a truthy \<open>data.e\<close> and resolves
  it with its \<open>data.r\<close> otherwise; otherwise the call resolves with \<open>data.r\<close>. The
  timer registered with the call carries the message
  \<open>Function call timed out (> T ms)\<close> for the Remote's timeout \<open>T\<close>; when it elapses
  the call is rejected with that message and no listener is left under the id.
\<close>

theorem agent_answer_completion:
  "r_eventEmitter s ident = [] \<and> handleAgentAnswer s ident = (p, s1) \<longrightarrow>
     (\<forall>data err. get_prop data ''e'' = Inr err \<and> truthy err \<longrightarrow>
        (\<exists>s2. emit s1 (JStr ident) data = Inr s2 \<and>
              promise_state s2 p = Rejected (Error (js_to_string err))))
     \<and> (\<forall>data err tok.
          get_prop data ''e'' = Inr err \<and> \<not> truthy err \<and>
          get_prop data ''r'' = Inr (JStr tok) \<and> take 5 tok = ''__p__'' \<and>
          r_eventEmitter s tok = [] \<longrightarrow>
          (\<exists>s2. emit s1 (JStr ident) data = Inr s2 \<and> promise_state s2 p = Pending \<and>
             (\<forall>data2 err2. get_prop data2 ''e'' = Inr err2 \<and> truthy err2 \<longrightarrow>
                (\<exists>s3. emit s2 (JStr tok) data2 = Inr s3 \<and>
                      promise_state s3 p = Rejected (Error (js_to_string err2)))) \<and>
             (\<forall>data2 err2 r2. get_prop data2 ''e'' = Inr err2 \<and> \<not> truthy err2 \<and>
                              get_prop data2 ''r'' = Inr r2 \<longrightarrow>
                (\<exists>s3. emit s2 (JStr tok) data2 = Inr s3 \<and>
                      promise_state s3 p = Fulfilled (Value r2)))))
     \<and> (\<forall>data err ret.
          get_prop data ''e'' = Inr err \<and> \<not> truthy err \<and>
          get_prop data ''r'' = Inr ret \<and> \<not> is_promise_token ret \<longrightarrow>
          (\<exists>s2. emit s1 (JStr ident) data = Inr s2 \<and> promise_state s2 p = Fulfilled (Value ret)))
     \<and> timers s1 (next_timer s) =
          Some (TimeoutCall ident p
                  (''Function call timed out (> '' @ string_of_int (r_timeout s) @ '' ms)''))
     \<and> promise_state (fire s1 (next_timer s)) p =
          Rejected (Error (''Function call timed out (> '' @ string_of_int (r_timeout s) @ '' ms)''))
     \<and> r_eventEmitter (fire s1 (next_timer s)) ident = []"
proof (intro impI, elim conjE, intro conjI allI impI)
  assume h: "r_eventEmitter s ident = []" "handleAgentAnswer s ident = (p, s1)"
  {
    fix data err
    assume "get_prop data ''e'' = Inr err \<and> truthy err"
    with h show "\<exists>s2. emit s1 (JStr ident) data = Inr s2 \<and>
              promise_state s2 p = Rejected (Error (js_to_string err))"
      by (intro answer_error) blast+
  next
    fix data err tok
    assume "get_prop data ''e'' = Inr err \<and> \<not> truthy err \<and>
          get_prop data ''r'' = Inr (JStr tok) \<and> take 5 tok = ''__p__'' \<and>
          r_eventEmitter s tok = []"
    with h show "\<exists>s2. emit s1 (JStr ident) data = Inr s2 \<and> promise_state s2 p = Pending \<and>
             (\<forall>data2 err2. get_prop data2 ''e'' = Inr err2 \<and> truthy err2 \<longrightarrow>
                (\<exists>s3. emit s2 (JStr tok) data2 = Inr s3 \<and>
                      promise_state s3 p = Rejected (Error (js_to_string err2)))) \<and>
             (\<forall>data2 err2 r2. get_prop data2 ''e'' = Inr err2 \<and> \<not> truthy err2 \<and>
                              get_prop data2 ''r'' = Inr r2 \<longrightarrow>
                (\<exists>s3. emit s2 (JStr tok) data2 = Inr s3 \<and>
                      promise_state s3 p = Fulfilled (Value r2)))"
      by (intro answer_token) blast+
  next
    fix data err ret
    assume "get_prop data ''e'' = Inr err \<and> \<not> truthy err \<and>
          get_prop data ''r'' = Inr ret \<and> \<not> is_promise_token ret"
    with h show "\<exists>s2. emit s1 (JStr ident) data = Inr s2 \<and> promise_state s2 p = Fulfilled (Value ret)"
      by (intro answer_value) blast+
  next
    from h(2) show "timers s1 (next_timer s) =
          Some (TimeoutCall ident p
                  (''Function call timed out (> '' @ string_of_int (r_timeout s) @ '' ms)''))"
      by (rule answer_timeout)
  next
    from h(2) show "promise_state (fire s1 (next_timer s)) p =
          Rejected (Error (''Function call timed out (> '' @ string_of_int (r_timeout s) @ '' ms)''))"
      by (rule answer_timeout)
  next
    from h(2) show "r_eventEmitter (fire s1 (next_timer s)) ident = []"
      by (rule answer_timeout)
  }
qed

text \<open>The theorem on the sample Remote, for the id \<open>ab12-0\<close> and the timeout of 5000 ms.\<close>

theorem agent_answer_completion_witness:
  "r_eventEmitter sample_remote ''ab12-0'' = []
   \<and> handleAgentAnswer sample_remote ''ab12-0'' = (0, snd (handleAgentAnswer sample_remote ''ab12-0''))
   \<and> (\<exists>s2. emit (snd (handleAgentAnswer sample_remote ''ab12-0'')) (JStr ''ab12-0'')
               (JObj [(''e'', JStr ''boom'')]) = Inr s2
           \<and> promise_state s2 0 = Rejected (Error ''boom''))
   \<and> (\<exists>s2. emit (snd (handleAgentAnswer sample_remote ''ab12-0'')) (JStr ''ab12-0'')
               (JObj [(''r'', JStr ''__p__7'')]) = Inr s2
           \<and> promise_state s2 0 = Pending
           \<and> (\<exists>s3. emit s2 (JStr ''__p__7'') (JObj [(''r'', JNum 42)]) = Inr s3
                   \<and> promise_state s3 0 = Fulfilled (Value (JNum 42))))
   \<and> (\<exists>s2. emit (snd (handleAgentAnswer sample_remote ''ab12-0'')) (JStr ''ab12-0'')
               (JObj [(''r'', JNum 1)]) = Inr s2
           \<and> promise_state s2 0 = Fulfilled (Value (JNum 1)))
   \<and> promise_state (fire (snd (handleAgentAnswer sample_remote ''ab12-0'')) 0) 0 =
       Rejected (Error ''Function call timed out (> 5000 ms)'')
   \<and> r_eventEmitter (fire (snd (handleAgentAnswer sample_remote ''ab12-0'')) 0) ''ab12-0'' = []"
proof -
  let ?s1 = "snd (handleAgentAnswer sample_remote ''ab12-0'')"
  have h1: "r_eventEmitter sample_remote ''ab12-0'' = []"
    by (rule sample_remote_fields)
  have "fst (handleAgentAnswer sample_remote ''ab12-0'') = 0"
    by (simp add: handleAgentAnswer_state sample_remote_fields)
  then have h2: "handleAgentAnswer sample_remote ''ab12-0'' = (0, ?s1)"
    by (simp only: prod_eq_iff fst_conv snd_conv simp_thms)
  note t = agent_answer_completion [where s = sample_remote and ident = "''ab12-0''" and p = 0 and ?s1.0 = ?s1,
      THEN mp, OF conjI [OF h1 h2]]
  have a: "\<exists>s2. emit ?s1 (JStr ''ab12-0'') (JObj [(''e'', JStr ''boom'')]) = Inr s2
           \<and> promise_state s2 0 = Rejected (Error ''boom'')"
    using t [THEN conjunct1, rule_format, of "JObj [(''e'', JStr ''boom'')]" "JStr ''boom''"]
    by simp
  have b: "\<exists>s2. emit ?s1 (JStr ''ab12-0'') (JObj [(''r'', JStr ''__p__7'')]) = Inr s2
           \<and> promise_state s2 0 = Pending
           \<and> (\<exists>s3. emit s2 (JStr ''__p__7'') (JObj [(''r'', JNum 42)]) = Inr s3
                   \<and> promise_state s3 0 = Fulfilled (Value (JNum 42)))"
  proof -
    from t [THEN conjunct2, THEN conjunct1, rule_format,
        of "JObj [(''r'', JStr ''__p__7'')]" JUndefined "''__p__7''"] sample_remote_fields(1)
    obtain s2 where s2: "emit ?s1 (JStr ''ab12-0'') (JObj [(''r'', JStr ''__p__7'')]) = Inr s2"
      "promise_state s2 0 = Pending"
      "\<And>data2 err2 r2. get_prop data2 ''e'' = Inr err2 \<and> \<not> truthy err2 \<and>
                              get_prop data2 ''r'' = Inr r2 \<Longrightarrow>
                (\<exists>s3. emit s2 (JStr ''__p__7'') data2 = Inr s3 \<and>
                      promise_state s3 0 = Fulfilled (Value r2))"
      by auto
    from s2(3) [of "JObj [(''r'', JNum 42)]" JUndefined "JNum 42"]
    have "\<exists>s3. emit s2 (JStr ''__p__7'') (JObj [(''r'', JNum 42)]) = Inr s3
                   \<and> promise_state s3 0 = Fulfilled (Value (JNum 42))"
      by simp
    with s2(1,2) show ?thesis by blast
  qed
  have c: "\<exists>s2. emit ?s1 (JStr ''ab12-0'') (JObj [(''r'', JNum 1)]) = Inr s2
           \<and> promise_state s2 0 = Fulfilled (Value (JNum 1))"
    using t [THEN conjunct2, THEN conjunct2, THEN conjunct1, rule_format,
        of "JObj [(''r'', JNum 1)]" JUndefined "JNum 1"]
    by simp
  have d: "promise_state (fire ?s1 0) 0 = Rejected (Error ''Function call timed out (> 5000 ms)'')"
    "r_eventEmitter (fire ?s1 0) ''ab12-0'' = []"
    using t [THEN conjunct2, THEN conjunct2, THEN conjunct2, THEN conjunct2]
    by (simp_all add: sample_remote_fields string_of_int_5000)
  from h1 h2 a b c d show ?thesis by blast
qed


subsection \<open>Every request completes once\<close>















lemma on_frame [simp]:
  "r_eventEmitter (on s k l) = (r_eventEmitter s)(k := r_eventEmitter s k @ [On l])"
  "timers (on s k l) = timers s" "next_timer (on s k l) = next_timer s"
  "promises (on s k l) = promises s" "next_promise (on s k l) = next_promise s"
  "published (on s k l) = published s" "r_instance (on s k l) = r_instance s"
  "r_timeout (on s k l) = r_timeout s" "r_invokeId (on s k l) = r_invokeId s"
  by (simp_all add: on_def)

lemma once_frame [simp]:
  "next_timer (once s k l) = next_timer s"
  "promises (once s k l) = promises s" "next_promise (once s k l) = next_promise s"
  "published (once s k l) = published s" "r_instance (once s k l) = r_instance s"
  "r_timeout (once s k l) = r_timeout s" "r_invokeId (once s k l) = r_invokeId s"
  by (simp_all add: once_def)

lemma same_but_tunnels_refl [simp]: "same_but_tunnels s s"
  by (simp add: same_but_tunnels_def)









lemma next_id_frame [simp]:
  "r_eventEmitter (snd (next_id s)) = r_eventEmitter s"
  "next_timer (snd (next_id s)) = next_timer s"
  "timers (snd (next_id s)) = timers s"
  "r_timeout (snd (next_id s)) = r_timeout s"
  by (simp_all add: next_id_def)

lemma mqttPublish_frame [simp]:
  "r_eventEmitter (mqttPublish s topic text) = r_eventEmitter s"
  "next_timer (mqttPublish s topic text) = next_timer s"
  "timers (mqttPublish s topic text) = timers s"
  by (simp_all add: mqttPublish_def)












subsection \<open>Packing arguments\<close>

text \<open>
  What \<open>_packData\<close> does with a callable or an emitter pair: an \<open>on\<close> registration gets
  the id \<open>__f__{proxyId}-on-1-{event}\<close> and a persistent listener; any other callable gets
  an id that ends in the counter and a one-shot listener; an emitter pair gets the id that
  ends in its event and a persistent listener. A one-shot listener is gone after its
  delivery; a persistent one stays.
\<close>

lemma string_of_nat_Suc:
  "string_of_nat (Suc 0) = ''1''" "string_of_nat (Suc (Suc 0)) = ''2''"
  by (simp_all add: string_of_nat.simps digit_char_def)

lemma packData_on_registration:
  "packData s pid ''on'' [JStr ev, JFun k src] =
     (Inr [(''_1'', JStr ev), (''_2'', JStr (''__f__'' @ pid @ ''-on-1-'' @ ev))],
      on s (''__f__'' @ pid @ ''-on-1-'' @ ev) (OnCallback (JFun k src)))"
  by (simp add: packData_def isEmitter_def arg_at_def string_of_nat_Suc Let_def)

lemma packData_callback:
  "packData s pid functionName [JFun k src] =
     (Inr [(''_1'', JStr (''__f__'' @ pid @ ''-'' @ functionName @ ''-0-'' @
                          string_of_nat (r_invokeId s mod MAX_SAFE_INTEGER)))],
      once (s\<lparr>r_invokeId := increment (r_invokeId s)\<rparr>)
        (''__f__'' @ pid @ ''-'' @ functionName @ ''-0-'' @
           string_of_nat (r_invokeId s mod MAX_SAFE_INTEGER))
        (OnceCallback (JFun k src)))"
  by (simp add: packData_def string_of_nat_Suc Let_def)

lemma packData_emitter:
  "packData s pid functionName [JObj [(''emitter'', JObj [(''emit'', JFun k src)]), (''event'', ev)]] =
     (Inr [(''_1'', JStr (''__f__'' @ pid @ ''-'' @ functionName @ ''-0-'' @ js_to_string ev))],
      on s (''__f__'' @ pid @ ''-'' @ functionName @ ''-0-'' @ js_to_string ev)
        (EmitterCallback (JObj [(''emit'', JFun k src)]) ev))"
  by (simp add: packData_def isEmitter_def string_of_nat_Suc Let_def)

lemma one_shot_delivery:
  assumes "r_eventEmitter s ident = [Once (OnceCallback f)]" and "callback_args data = Inr args"
  shows "emit s (JStr ident) data =
           Inr (s\<lparr>r_eventEmitter := (r_eventEmitter s)(ident := []),
                  calls := calls s @ [Apply f args]\<rparr>)"
  using assms by (simp add: emit_def removeListener_def)

lemma persistent_delivery:
  assumes "r_eventEmitter s ident = [On (OnCallback f)]" and "callback_args data = Inr args"
  shows "emit s (JStr ident) data = Inr (s\<lparr>calls := calls s @ [Apply f args]\<rparr>)"
  using assms by (simp add: emit_def)

lemma emitter_delivery:
  assumes "r_eventEmitter s ident = [On (EmitterCallback emitter event)]"
    and "callback_args data = Inr args"
  shows "emit s (JStr ident) data = Inr (s\<lparr>calls := calls s @ [EmitterEmit emitter event args]\<rparr>)"
  using assms by (simp add: emit_def)


text \<open>
  C5. The claim: \<open>_packData\<close> replaces callables and emitter pairs by tunnel ids and sends
  all other values unchanged under the key \<open>_{argIndex+1}\<close>. A null argument is such an
  other value, but \<open>_isEmitter\<close> passes its \<open>typeof\<close> test and then reads
  \<open>null.hasOwnProperty\<close>: packing an argument list that begins with null throws a
  \<open>TypeError\<close>, and nothing is packed.
\<close>

theorem packData_null_throws: "packData s pid functionName (JNull # rest) = (Inl TypeError, s)"
  by (simp add: packData_def isEmitter_def)

subsection \<open>Empty payloads\<close>

text \<open>
  C10. A message of length zero makes the Remote's message handler return at once: the
  whole state (discovery tree, event emitter with the pending calls and the tunnel
  entries, emitted events) is the one it was called in.
\<close>

theorem on_message_empty: "on_message s topic Empty = Inr s"
  by (simp add: on_message_def)


end
